theory Spec2Isabelle
  imports Complex_Main "HOL-Library.Sublist" "HOL-Library.Product_Lexorder" "HOL-Library.Log_Nat"
begin

section \<open>JavaScript strings\<close>

text \<open>
  A text is a list of UTF-16 code units; the model covers the code units below 256
  (the Latin-1 range), one \<^typ>\<open>char\<close> each, so that \<^const>\<open>length\<close> is the \<open>.length\<close> of the
  source. Inside that range \<open>String.prototype.toLowerCase\<close> maps one code unit to one
  code unit: \<open>A\<close>..\<open>Z\<close> and the accented capitals 0xC0..0xDE (0xD7, the multiplication
  sign, apart) move up by 32.
\<close>

definition isUpperCode :: "int \<Rightarrow> bool" where
  "isUpperCode n = ((65 \<le> n \<and> n \<le> 90) \<or> (192 \<le> n \<and> n \<le> 222 \<and> n \<noteq> 215))"

definition toLowerChar :: "char \<Rightarrow> char" where
  "toLowerChar c = (if isUpperCode (of_char c) then char_of (of_char c + (32::int)) else c)"

definition toLowerCase :: "string \<Rightarrow> string" where
  "toLowerCase s = map toLowerChar s"

text \<open>
  \<open>toUpperCase\<close> is only ever applied by the source to the first character of a word
  over \<open>[a-z0-9]\<close> (in \<open>capitalizeFirstLetter\<close>), where it moves \<open>a\<close>..\<open>z\<close> down by 32.
\<close>

definition toUpperChar :: "char \<Rightarrow> char" where
  "toUpperChar c =
     (if 97 \<le> (of_char c :: int) \<and> (of_char c :: int) \<le> 122
      then char_of (of_char c - (32::int)) else c)"

definition isLetter :: "char \<Rightarrow> bool" where
  "isLetter c = (let n = (of_char c :: int) in (65 \<le> n \<and> n \<le> 90) \<or> (97 \<le> n \<and> n \<le> 122))"

definition isDigit :: "char \<Rightarrow> bool" where
  "isDigit c = (let n = (of_char c :: int) in 48 \<le> n \<and> n \<le> 57)"

text \<open>
  The white space of the regular expression class \<open>\s\<close> and of \<open>trim\<close>, below 256: tab, line
  feed, vertical tab, form feed, carriage return, space and the no-break space.
\<close>

definition isWhiteSpace :: "char \<Rightarrow> bool" where
  "isWhiteSpace c =
     (c \<in> set [CHR 0x09, CHR 0x0A, CHR 0x0B, CHR 0x0C, CHR 0x0D, CHR 0x20, CHR 0xA0])"

definition trim :: "string \<Rightarrow> string" where
  "trim s = rev (dropWhile isWhiteSpace (rev (dropWhile isWhiteSpace s)))"

text \<open>\<open>haystack.includes(needle)\<close>: the needle occurs as a contiguous block.\<close>

definition includesStr :: "string \<Rightarrow> string \<Rightarrow> bool" where
  "includesStr haystack needle = sublist needle haystack"

definition endsWith :: "string \<Rightarrow> string \<Rightarrow> bool" where
  "endsWith s e = suffix e s"

text \<open>
  \<open>s.split(/[...]+/)\<close> for a character class: the pieces between the maximal runs of
  separator characters, the empty pieces before a leading run and after a trailing run
  included; a string with no separator (the empty string too) is one piece.
\<close>

function splitRuns :: "(char \<Rightarrow> bool) \<Rightarrow> string \<Rightarrow> string list" where
  "splitRuns sep s =
     (let piece = takeWhile (\<lambda>c. \<not> sep c) s;
          rest = dropWhile (\<lambda>c. \<not> sep c) s
      in if rest = [] then [piece] else piece # splitRuns sep (dropWhile sep rest))"
  by pat_completeness auto
termination
proof (relation "measure (\<lambda>(sep, s). length s)")
  show "wf (measure (\<lambda>(sep, s). length s))" by simp
next
  fix sep :: "char \<Rightarrow> bool" and s piece rest :: string
  assume rest: "rest = dropWhile (\<lambda>c. \<not> sep c) s" and ne: "rest \<noteq> []"
  from ne obtain c cs where cs: "rest = c # cs" by (cases rest) auto
  have "sep (hd rest)"
    using ne hd_dropWhile [of "\<lambda>c. \<not> sep c" s] unfolding rest by blast
  then have "sep c" by (simp add: cs)
  then have "length (dropWhile sep rest) \<le> length cs"
    using cs length_dropWhile_le [of sep cs] by simp
  moreover have "length rest \<le> length s"
    using rest length_dropWhile_le [of "\<lambda>c. \<not> sep c" s] by simp
  ultimately show "((sep, dropWhile sep rest), (sep, s)) \<in> measure (\<lambda>(sep, s). length s)"
    using cs by simp
qed

declare splitRuns.simps [simp del]

definition isSentenceEnd :: "char \<Rightarrow> bool" where
  "isSentenceEnd c = (c \<in> set ''.!?'')"

definition splitSentences :: "string \<Rightarrow> string list" where
  "splitSentences text = splitRuns isSentenceEnd text"

definition splitWhitespace :: "string \<Rightarrow> string list" where
  "splitWhitespace text = splitRuns isWhiteSpace text"

fun join :: "string \<Rightarrow> string list \<Rightarrow> string" where
  "join sep [] = []"
| "join sep [x] = x"
| "join sep (x # y # ys) = x @ sep @ join sep (y # ys)"

text \<open>\<open>n.toString()\<close> and \<open>`${n}`\<close> for an integer \<open>n\<close>.\<close>

function showInt :: "int \<Rightarrow> string" where
  "showInt n =
     (if n < 0 then CHR ''-'' # showInt (- n)
      else if n < 10 then [char_of (48 + n)]
      else showInt (n div 10) @ [char_of (48 + n mod 10)])"
  by pat_completeness auto
termination
  by (relation "measure (\<lambda>n. if n < 0 then nat (1 - 2 * n) else nat (2 * n))") auto

declare showInt.simps [simp del]

section \<open>JavaScript numbers and sorting\<close>

text \<open>
  A number is an IEEE binary64 value. The values the source computes stay far inside the
  normal range, where every arithmetic operation returns the exact result rounded to the
  nearest value with a 53-bit significand, ties to the even significand: \<open>fl\<close>.
\<close>

definition exponentOf :: "rat \<Rightarrow> int" where
  "exponentOf a =
     (let (p, q) = quotient_of a; k = bitlen p - bitlen q
      in if 2 powi k \<le> a then k else k - 1)"

definition fl :: "rat \<Rightarrow> rat" where
  "fl x =
     (if x = 0 then 0
      else let a = \<bar>x\<bar>;
               u = 2 powi (exponentOf a - 52);
               q = a / u;
               n = \<lfloor>q\<rfloor>;
               r = q - of_int n;
               m = (if 1 / 2 < r \<or> (r = 1 / 2 \<and> odd n) then n + 1 else n)
           in sgn x * of_int m * u)"

definition addNum :: "rat \<Rightarrow> rat \<Rightarrow> rat" where
  "addNum a b = fl (a + b)"

definition subNum :: "rat \<Rightarrow> rat \<Rightarrow> rat" where
  "subNum a b = fl (a - b)"

definition divNum :: "rat \<Rightarrow> rat \<Rightarrow> rat" where
  "divNum a b = fl (a / b)"

text \<open>What a comparator returns: a number, or \<open>NaN\<close> when an operand is not numeric.\<close>

datatype number = Num rat | NaN

text \<open>
  \<open>Array.prototype.sort(comparefn)\<close>. The sort is stable, and \<open>x\<close> is placed after \<open>y\<close> only
  when \<open>comparefn(x, y) > 0\<close>; \<open>NaN\<close> counts as 0. For a consistent comparator every
  conforming engine returns this list. (ECMAScript leaves the order to the engine when
  the comparator is inconsistent, which can happen only in \<open>extractMainTopic\<close>; there the
  runtime's sort is asked.)
\<close>

definition placedAfter :: "number \<Rightarrow> bool" where
  "placedAfter v = (case v of Num r \<Rightarrow> 0 < r | NaN \<Rightarrow> False)"

fun js_insert :: "('a \<Rightarrow> 'a \<Rightarrow> number) \<Rightarrow> 'a \<Rightarrow> 'a list \<Rightarrow> 'a list" where
  "js_insert cmp x [] = [x]"
| "js_insert cmp x (y # ys) =
     (if placedAfter (cmp x y) then y # js_insert cmp x ys else x # y # ys)"

definition js_sort :: "('a \<Rightarrow> 'a \<Rightarrow> number) \<Rightarrow> 'a list \<Rightarrow> 'a list" where
  "js_sort cmp xs = foldr (js_insert cmp) xs []"

text \<open>\<open>xs.map((x, index) => f x index)\<close> and \<open>xs.forEach((x, index) => ...)\<close> see these pairs.\<close>

definition withIndex :: "'a list \<Rightarrow> ('a \<times> nat) list" where
  "withIndex xs = zip xs [0..<length xs]"

section \<open>JSON values and the runtime\<close>

datatype json =
  JNull | JBool bool | JNumber rat | JString string | JArray "json list"
  | JObject "(string \<times> json) list"

text \<open>
  What the JavaScript runtime offers to the code while it runs. \<open>mathRandom\<close> is the
  sequence of values that successive calls of \<open>Math.random()\<close> would return and
  \<open>currentTime\<close> the clock (\<open>Date.now()\<close>). \<open>arraySort\<close> is the engine's \<open>Array.prototype.sort\<close> where
  ECMAScript leaves the order to the engine (an inconsistent comparator), applied to the
  comparator and the array.
  \<open>coerceLess v n\<close> is \<open>v < n\<close> for a string, array or object \<open>v\<close> (\<open>ToPrimitive\<close> and the
  string-to-number conversion, which are not modelled); \<open>None\<close> when the conversion throws.
\<close>

record runtime =
  mathRandom :: "nat \<Rightarrow> rat"
  currentTime :: int
  arraySort :: "(string \<Rightarrow> string \<Rightarrow> number) \<Rightarrow> string list \<Rightarrow> string list"
  coerceLess :: "json \<Rightarrow> rat \<Rightarrow> bool option"

section \<open>Text heuristics engine (services/aiService.js)\<close>

subsection \<open>Helper methods\<close>

definition hasImportantKeywords :: "string \<Rightarrow> bool" where
  "hasImportantKeywords sentence =
     (let keywords = [''important'', ''key'', ''main'', ''primary'', ''essential'', ''crucial'',
                      ''significant'', ''major''];
          lowerSentence = toLowerCase sentence
      in list_ex (\<lambda>keyword. includesStr lowerSentence keyword) keywords)"

definition isDefinition :: "string \<Rightarrow> bool" where
  "isDefinition sentence =
     (let definitionIndicators = [''is defined as'', ''means that'', ''refers to'', ''is called'',
                                  ''known as''];
          lowerSentence = toLowerCase sentence
      in list_ex (\<lambda>indicator. includesStr lowerSentence indicator) definitionIndicators)"

definition containsProcess :: "string \<Rightarrow> bool" where
  "containsProcess text =
     (let processIndicators = [''process'', ''step'', ''stage'', ''phase'', ''cycle'', ''method'',
                               ''procedure''];
          lowerText = toLowerCase text
      in list_ex (\<lambda>indicator. includesStr lowerText indicator) processIndicators)"

definition extractProcessSteps :: "string \<Rightarrow> string list" where
  "extractProcessSteps text =
     (let sentences = splitSentences text;
          stepIndicators = [''first'', ''second'', ''third'', ''then'', ''next'', ''after'', ''finally'',
                            ''step'']
      in map trim (take 3 (filter
           (\<lambda>sentence. list_ex (\<lambda>indicator. includesStr (toLowerCase sentence) indicator)
                          stepIndicators
                        \<and> length sentence < 100)
           sentences)))"

definition capitalizeFirstLetter :: "string \<Rightarrow> string" where
  "capitalizeFirstLetter string = (case string of [] \<Rightarrow> [] | c # rest \<Rightarrow> toUpperChar c # rest)"

text \<open>
  \<open>[...new Set(words)]\<close>: a set keeps its elements in the order of their first insertion.
\<close>

definition addToSet :: "'a list \<Rightarrow> 'a \<Rightarrow> 'a list" where
  "addToSet seen w = (if w \<in> set seen then seen else seen @ [w])"

definition newSet :: "'a list \<Rightarrow> 'a list" where
  "newSet ws = fold (\<lambda>w seen. addToSet seen w) ws []"

text \<open>\<open>/^[a-zA-Z]+$/.test(word)\<close>\<close>

definition isAlphabetic :: "string \<Rightarrow> bool" where
  "isAlphabetic word = (word \<noteq> [] \<and> list_all isLetter word)"

definition extractKeyTerms :: "string \<Rightarrow> string list" where
  "extractKeyTerms text =
     (let words = filter (\<lambda>word. 6 < length word) (splitWhitespace text);
          uniqueWords = take 8 (newSet words);
          commonWords = [''however'', ''although'', ''because'', ''therefore'', ''additionally''];
          filteredWords = filter
            (\<lambda>word. toLowerCase word \<notin> set commonWords \<and> isAlphabetic word) uniqueWords
      in if 4 \<le> length filteredWords then take 4 filteredWords
         else take 4 [''Concept'', ''Theory'', ''Application'', ''Method'', ''Principle'',
                      ''Analysis''])"

text \<open>
  \<open>wordFreq\<close> is an object literal \<open>{}\<close>, so \<open>wordFreq[cleanWord]\<close> also finds what
  \<open>Object.prototype\<close> holds. A clean word is lower-case alphanumeric and longer than 4, and
  the only such name on the prototype is \<open>constructor\<close>: its first lookup yields the
  function \<open>Object\<close>, \<open>Object + 1\<close> is a string, and so is that string \<open>+ 1\<close>. The entry of
  that word is therefore never a number (\<open>NotNumeric\<close>), every other entry is a count.
  The association list keeps the order in which the properties were created.
\<close>

datatype freq = Count nat | NotNumeric

fun increment :: "(string \<times> freq) list \<Rightarrow> string \<Rightarrow> (string \<times> freq) list" where
  "increment [] w = [(w, if w = ''constructor'' then NotNumeric else Count 1)]"
| "increment ((k, v) # wordFreq) w =
     (if k = w
      then (k, (case v of Count n \<Rightarrow> Count (n + 1) | NotNumeric \<Rightarrow> NotNumeric)) # wordFreq
      else (k, v) # increment wordFreq w)"

text \<open>
  \<open>Object.keys\<close>: the array-index names (canonical decimal numerals below \<open>2^32 - 1\<close>) first,
  in ascending numeric order, then the other names in creation order.
\<close>

definition decimalValue :: "string \<Rightarrow> int" where
  "decimalValue k = fold (\<lambda>c n. 10 * n + (of_char c - 48)) k 0"

definition isArrayIndex :: "string \<Rightarrow> bool" where
  "isArrayIndex k =
     (k \<noteq> [] \<and> list_all isDigit k \<and> (k = ''0'' \<or> take 1 k \<noteq> ''0'')
      \<and> decimalValue k < 4294967295)"

definition objectKeys :: "(string \<times> 'v) list \<Rightarrow> string list" where
  "objectKeys obj =
     (let names = map fst obj
      in sort_key decimalValue (filter isArrayIndex names)
         @ filter (\<lambda>k. \<not> isArrayIndex k) names)"

text \<open>\<open>wordFreq[b] - wordFreq[a]\<close>: a difference of counts, \<open>NaN\<close> when either is no number.\<close>

definition freqDifference :: "(string \<times> freq) list \<Rightarrow> string \<Rightarrow> string \<Rightarrow> number" where
  "freqDifference wordFreq b a =
     (case (map_of wordFreq b, map_of wordFreq a) of
        (Some (Count m), Some (Count n)) \<Rightarrow> Num (subNum (of_nat m) (of_nat n))
      | _ \<Rightarrow> NaN)"

text \<open>
  The comparator \<open>wordFreq[b] - wordFreq[a]\<close> is consistent unless one entry is no number
  (\<open>NaN\<close> compares equal to everything) while two counts differ. Where it is consistent
  the sorted array is the stable sort; where it is not, the engine decides.
\<close>

definition comparatorInconsistent :: "(string \<times> freq) list \<Rightarrow> bool" where
  "comparatorInconsistent wordFreq =
     (NotNumeric \<in> set (map snd wordFreq)
      \<and> 1 < length (remdups (filter (\<lambda>v. v \<noteq> NotNumeric) (map snd wordFreq))))"

definition wordFrequencies :: "string \<Rightarrow> (string \<times> freq) list" where
  "wordFrequencies text =
     (let words = splitWhitespace (toLowerCase text);
          commonWords = [''the'', ''is'', ''in'', ''and'', ''to'', ''of'', ''that'', ''this'', ''with'',
                         ''for'', ''on'', ''are'', ''which'', ''what'', ''how'', ''when'', ''where'', ''why'']
      in fold
           (\<lambda>word wordFreq.
              let cleanWord = filter (\<lambda>c. isLetter c \<or> isDigit c) word
              in if 4 < length cleanWord \<and> cleanWord \<notin> set commonWords
                 then increment wordFreq cleanWord else wordFreq)
           words [])"

definition extractMainTopic :: "runtime \<Rightarrow> string \<Rightarrow> string" where
  "extractMainTopic rt text =
     (let wordFreq = wordFrequencies text;
          sortedWords =
            (if comparatorInconsistent wordFreq
             then arraySort rt (\<lambda>a b. freqDifference wordFreq b a) (objectKeys wordFreq)
             else js_sort (\<lambda>a b. freqDifference wordFreq b a) (objectKeys wordFreq))
      in case sortedWords of
           [] \<Rightarrow> ''Learning Concepts''
         | w # rest \<Rightarrow> if w \<noteq> [] then capitalizeFirstLetter w else ''Learning Concepts'')"

text \<open>
  \<open>distractors[correctAnswer.toLowerCase()] || '...'\<close> is a lookup in an object literal too:
  for the two lower-case names of \<open>Object.prototype\<close> it returns what the prototype holds
  (the function \<open>Object\<close>, the prototype object itself), both truthy and no strings.
\<close>

datatype optionValue = Str string | ObjectConstructor | ObjectPrototype

definition distractors :: "(string \<times> string) list" where
  "distractors =
     [(''machine'', ''artificial intelligence''), (''learning'', ''training''),
      (''photosynthesis'', ''respiration''), (''water'', ''air''), (''cycle'', ''process''),
      (''computer'', ''technology''), (''programming'', ''coding''), (''algorithm'', ''method''),
      (''data'', ''information''), (''network'', ''system'')]"

definition generateDistractor :: "string \<Rightarrow> optionValue" where
  "generateDistractor correctAnswer =
     (let name = toLowerCase correctAnswer
      in case map_of distractors name of
           Some d \<Rightarrow> if d \<noteq> [] then Str d else Str ''Related but different concept''
         | None \<Rightarrow>
             if name = ''constructor'' then ObjectConstructor
             else if name = ''__proto__'' then ObjectPrototype
             else Str ''Related but different concept'')"

subsection \<open>Summary\<close>

record item =
  sentence :: string
  position :: nat

record summaryItem = item +
  length' :: nat
  hasKeywords :: bool

definition summaryCompare :: "summaryItem \<Rightarrow> summaryItem \<Rightarrow> number" where
  "summaryCompare a b =
     (if hasKeywords a \<and> \<not> hasKeywords b then Num (- 1)
      else if \<not> hasKeywords a \<and> hasKeywords b then Num 1
      else if length' a \<noteq> length' b
        then Num (subNum (of_nat (length' b)) (of_nat (length' a)))
      else Num (subNum (of_nat (position a)) (of_nat (position b))))"

definition positionCompare :: "'a item_scheme \<Rightarrow> 'a item_scheme \<Rightarrow> number" where
  "positionCompare a b = Num (subNum (of_nat (position a)) (of_nat (position b)))"

definition summaryItems :: "string \<Rightarrow> summaryItem list" where
  "summaryItems text =
     (let sentences = filter (\<lambda>s. 10 < length (trim s)) (splitSentences text)
      in map (\<lambda>(s, index).
                \<lparr>sentence = trim s, position = index, length' = length s,
                 hasKeywords = hasImportantKeywords s\<rparr>)
             (withIndex sentences))"

definition generateSmartSummary :: "string \<Rightarrow> string" where
  "generateSmartSummary text =
     (let importantSentences =
            map sentence
              (js_sort positionCompare (take 4 (js_sort summaryCompare (summaryItems text))));
          summary = join ''. '' importantSentences @ ''.''
      in summary @ '' [AI Enhanced Summary]'')"

subsection \<open>Quiz\<close>

record question =
  question :: string
  options :: "optionValue list"
  correct :: nat
  explanation :: string

definition topicQuestion :: "string \<Rightarrow> question" where
  "topicQuestion mainTopic =
     \<lparr>question = ''What is the main topic of this text?'',
      options = [Str mainTopic, generateDistractor mainTopic, generateDistractor mainTopic,
                 Str ''A completely different subject''],
      correct = 0,
      explanation = ''The text primarily focuses on '' @ mainTopic
                    @ '', as evidenced by the content and key terms.''\<rparr>"

definition conceptQuestion :: "string \<Rightarrow> question" where
  "conceptQuestion keyTerm =
     \<lparr>question = ''Which of these is a key concept mentioned in the text?'',
      options = [Str keyTerm, generateDistractor keyTerm, Str ''Unrelated concept 1'',
                 Str ''Unrelated concept 2''],
      correct = 0,
      explanation = keyTerm @ '' is a key concept discussed in the material.''\<rparr>"

definition processQuestion :: question where
  "processQuestion =
     \<lparr>question = ''What does the text describe?'',
      options = [Str ''A process or method'', Str ''A historical event'', Str ''A fictional story'',
                 Str ''A product review''],
      correct = 0,
      explanation = ''The text describes a process or method based on the content structure.''\<rparr>"

definition genericQuestion :: question where
  "genericQuestion =
     \<lparr>question = ''What type of educational content is this?'',
      options = [Str ''Study material for learning'', Str ''Entertainment content'',
                 Str ''Advertising material'', Str ''Personal diary entry''],
      correct = 0,
      explanation = ''This appears to be educational study material designed for learning purposes.''\<rparr>"

text \<open>\<open>while (questions.length < 2) questions.push(...)\<close>\<close>

function padQuestions :: "question list \<Rightarrow> question list" where
  "padQuestions questions =
     (if length questions < 2 then padQuestions (questions @ [genericQuestion]) else questions)"
  by pat_completeness auto
termination
  by (relation "measure (\<lambda>questions. 2 - length questions)") auto

declare padQuestions.simps [simp del]

text \<open>
  The body of \<open>generateSmartQuiz\<close> after its three extractions: the pushes, the padding
  loop and the final \<open>slice(0, 3)\<close>. An empty main topic is falsy.
\<close>

definition buildQuiz :: "string \<Rightarrow> string list \<Rightarrow> bool \<Rightarrow> question list" where
  "buildQuiz mainTopic keyTerms process =
     (let q1 = (if mainTopic \<noteq> [] then [topicQuestion mainTopic] else []);
          q2 = (case keyTerms of [] \<Rightarrow> q1 | keyTerm # rest \<Rightarrow> q1 @ [conceptQuestion keyTerm]);
          q3 = (if process then q2 @ [processQuestion] else q2)
      in take 3 (padQuestions q3))"

definition generateSmartQuiz :: "runtime \<Rightarrow> string \<Rightarrow> question list" where
  "generateSmartQuiz rt text =
     buildQuiz (extractMainTopic rt text) (extractKeyTerms text) (containsProcess text)"

subsection \<open>Flashcards\<close>

record flashcard =
  front :: string
  back' :: string

definition termCard :: "runtime \<Rightarrow> string \<Rightarrow> string list \<Rightarrow> string \<Rightarrow> flashcard" where
  "termCard rt text sentences term =
     (let contextSentence = find
            (\<lambda>s. includesStr (toLowerCase s) (toLowerCase term) \<and> length s < 100) sentences
      in \<lparr>front = term,
          back' = (case contextSentence of
                    Some s \<Rightarrow> if s \<noteq> [] then ''Relates to: '' @ trim s @ ''.''
                              else ''Important concept in '' @ extractMainTopic rt text @ ''.''
                  | None \<Rightarrow> ''Important concept in '' @ extractMainTopic rt text @ ''.'')\<rparr>)"

definition pushStep :: "string \<times> nat \<Rightarrow> flashcard list \<Rightarrow> flashcard list" where
  "pushStep = (\<lambda>(step, index) flashcards.
     if length flashcards < 6
     then flashcards @ [\<lparr>front = ''Step '' @ showInt (int index + 1), back' = step\<rparr>]
     else flashcards)"

definition defaultFlashcards :: "runtime \<Rightarrow> string \<Rightarrow> flashcard list" where
  "defaultFlashcards rt text =
     [\<lparr>front = ''Main Topic'',
       back' = ''The primary subject is '' @ extractMainTopic rt text @ ''.''\<rparr>,
      \<lparr>front = ''Key Concept'', back' = ''Central idea discussed in the material.''\<rparr>,
      \<lparr>front = ''Learning Objective'', back' = ''Understanding the core concepts presented.''\<rparr>,
      \<lparr>front = ''Study Focus'', back' = ''Focus on the main ideas and relationships.''\<rparr>]"

text \<open>
  \<open>while (flashcards.length < 4) { const defaultCard = defaultFlashcards[flashcards.length];
  if (defaultCard) flashcards.push(defaultCard); }\<close>: the index is below 4 inside the loop,
  so the default card exists and is pushed.
\<close>

function padFlashcards :: "runtime \<Rightarrow> string \<Rightarrow> flashcard list \<Rightarrow> flashcard list" where
  "padFlashcards rt text flashcards =
     (if length flashcards < 4
      then padFlashcards rt text (flashcards @ [defaultFlashcards rt text ! length flashcards])
      else flashcards)"
  by pat_completeness auto
termination
  by (relation "measure (\<lambda>(rt, text, flashcards). 4 - length flashcards)") auto

declare padFlashcards.simps [simp del]

definition generateSmartFlashcards :: "runtime \<Rightarrow> string \<Rightarrow> flashcard list" where
  "generateSmartFlashcards rt text =
     (let keyTerms = extractKeyTerms text;
          sentences = filter (\<lambda>s. 10 < length (trim s)) (splitSentences text);
          termCards = map (termCard rt text sentences) keyTerms;
          withSteps = (if containsProcess text
                       then fold pushStep (withIndex (extractProcessSteps text)) termCards
                       else termCards)
      in take 6 (padFlashcards rt text withSteps))"

subsection \<open>Key points\<close>

record scoredItem = item +
  score :: rat

record keyPoint =
  id' :: nat
  point :: string

definition sentenceScore :: "string \<Rightarrow> nat \<Rightarrow> rat" where
  "sentenceScore s index =
     (let score0 = addNum 0 (min (divNum (of_nat (length s)) 50) 3);
          score1 = (if hasImportantKeywords s then addNum score0 2 else score0);
          score2 = (if isDefinition s then addNum score1 2 else score1)
      in addNum score2 (max 0 (divNum (subNum 10 (of_nat index)) 5)))"

definition keyPointSentences :: "string \<Rightarrow> string list" where
  "keyPointSentences text = filter (\<lambda>s. 15 < length (trim s)) (splitSentences text)"

definition scoredSentences :: "string \<Rightarrow> scoredItem list" where
  "scoredSentences text =
     map (\<lambda>(s, index). \<lparr>sentence = trim s, position = index, score = sentenceScore s index\<rparr>)
         (withIndex (keyPointSentences text))"

definition scoreCompare :: "scoredItem \<Rightarrow> scoredItem \<Rightarrow> number" where
  "scoreCompare a b = Num (subNum (score b) (score a))"

definition topSentences :: "string \<Rightarrow> scoredItem list" where
  "topSentences text =
     js_sort positionCompare (take 5 (js_sort scoreCompare (scoredSentences text)))"

definition extractSmartKeyPoints :: "string \<Rightarrow> keyPoint list" where
  "extractSmartKeyPoints text =
     map (\<lambda>(item, index).
            \<lparr>id' = index + 1,
             point = sentence item @ (if endsWith (sentence item) ''.'' then [] else ''.'')\<rparr>)
         (withIndex (topSentences text))"

section \<open>Remote inference adapter (generateSummary)\<close>

text \<open>
  What \<open>fetch\<close> and \<open>response.json()\<close> can give: the request is rejected, or a response
  arrives with a status and a body that is valid JSON or not. \<open>response.ok\<close> is a status
  from 200 to 299.
\<close>

datatype payload = Malformed | Parsed json

datatype fetchOutcome = Rejected | Response nat payload

datatype exn =
  FetchError | ApiError nat | SyntaxError | PayloadError json | TypeError | IllegalArguments

text \<open>A value that may be \<open>undefined\<close> is a \<^typ>\<open>json option\<close>.\<close>

definition truthy :: "json option \<Rightarrow> bool" where
  "truthy v =
     (case v of
        None \<Rightarrow> False
      | Some JNull \<Rightarrow> False
      | Some (JBool b) \<Rightarrow> b
      | Some (JNumber n) \<Rightarrow> n \<noteq> 0
      | Some (JString s) \<Rightarrow> s \<noteq> []
      | Some (JArray xs) \<Rightarrow> True
      | Some (JObject kvs) \<Rightarrow> True)"

text \<open>
  \<open>value[name]\<close> for the three names the source reads (\<open>error\<close>, \<open>0\<close>, \<open>summary_text\<close>):
  reading a property of \<open>null\<close> throws, an object gives its own property, an array or a
  string its first element under the name \<open>0\<close>, anything else \<open>undefined\<close>.
\<close>

definition getProperty :: "json \<Rightarrow> string \<Rightarrow> exn + json option" where
  "getProperty v name =
     (case v of
        JNull \<Rightarrow> Inl TypeError
      | JObject kvs \<Rightarrow> Inr (map_of kvs name)
      | JArray xs \<Rightarrow> Inr (if name = ''0'' then (case xs of [] \<Rightarrow> None | x # rest \<Rightarrow> Some x) else None)
      | JString s \<Rightarrow>
          Inr (if name = ''0'' then (case s of [] \<Rightarrow> None | c # rest \<Rightarrow> Some (JString [c]))
               else None)
      | _ \<Rightarrow> Inr None)"

text \<open>\<open>result[0]?.summary_text\<close>, for a \<open>result\<close> that is not \<open>null\<close>.\<close>

definition summaryText :: "json \<Rightarrow> exn + json option" where
  "summaryText result =
     (case getProperty result ''0'' of
        Inl e \<Rightarrow> Inl e
      | Inr None \<Rightarrow> Inr None
      | Inr (Some JNull) \<Rightarrow> Inr None
      | Inr (Some first) \<Rightarrow> getProperty first ''summary_text'')"

text \<open>The \<open>try\<close> block: \<open>Inl\<close> is what it throws, \<open>Inr\<close> what it returns.\<close>

definition tryRemote :: "fetchOutcome \<Rightarrow> string \<Rightarrow> exn + json" where
  "tryRemote outcome text =
     (case outcome of
        Rejected \<Rightarrow> Inl FetchError
      | Response status body \<Rightarrow>
          if \<not> (200 \<le> status \<and> status \<le> 299) then Inl (ApiError status)
          else (case body of
                  Malformed \<Rightarrow> Inl SyntaxError
                | Parsed result \<Rightarrow>
                    (case getProperty result ''error'' of
                       Inl e \<Rightarrow> Inl e
                     | Inr err \<Rightarrow>
                         if truthy err then Inl (PayloadError result)
                         else (case summaryText result of
                                 Inl e \<Rightarrow> Inl e
                               | Inr None \<Rightarrow> Inr (JString (generateSmartSummary text))
                               | Inr (Some v) \<Rightarrow>
                                   if truthy (Some v) then Inr v
                                   else Inr (JString (generateSmartSummary text))))))"

definition generateSummary :: "fetchOutcome \<Rightarrow> string \<Rightarrow> exn + json" where
  "generateSummary outcome text =
     (case tryRemote outcome text of
        Inl error \<Rightarrow> Inr (JString (generateSmartSummary text))
      | Inr v \<Rightarrow> Inr v)"

text \<open>
  The four ways the remote call fails: the request throws; the status is no success; the
  body is no JSON or its \<open>error\<close> field is set (\<open>if (result.error)\<close>: present and truthy;
  for the payload \<open>null\<close> the read itself throws); the output field
  \<open>result[0].summary_text\<close> is missing.
\<close>

definition missingOutput :: "json \<Rightarrow> bool" where
  "missingOutput result = (case summaryText result of Inr (Some v) \<Rightarrow> False | _ \<Rightarrow> True)"

definition hasError :: "json \<Rightarrow> bool" where
  "hasError result = (case getProperty result ''error'' of Inl e \<Rightarrow> True | Inr err \<Rightarrow> truthy err)"

definition remoteFailed :: "fetchOutcome \<Rightarrow> bool" where
  "remoteFailed outcome =
     (case outcome of
        Rejected \<Rightarrow> True
      | Response status Malformed \<Rightarrow> True
      | Response status (Parsed result) \<Rightarrow>
          status < 200 \<or> 299 < status \<or> hasError result \<or> missingOutput result)"

section \<open>Session store (routes/study.js)\<close>

text \<open>
  A JSON file on disk: absent, empty, not parseable, or holding a value. A write that
  fails leaves the file as it was or cut short (which never parses).
\<close>

datatype 'a jsonFile = Missing | Blank | Unparseable | Content 'a

datatype writeResult = WriteOk | WriteFailsUntouched | WriteFailsTruncated

record 'r session =
  sid :: string
  userId :: string
  originalText :: string
  fullTextLength :: nat
  results :: 'r
  features :: "string list"
  timestamp :: string
  wordCount :: nat
  inputType :: string
  fileName :: "string option"

text \<open>The clock and the disk as one call of \<open>createStudySession\<close> meets them.\<close>

record sessionEnv =
  now :: int
  isoNow :: string
  readFails :: bool
  writeResult :: writeResult

definition readStudySessions :: "bool \<Rightarrow> 'r session list jsonFile \<Rightarrow> 'r session list" where
  "readStudySessions fails disk =
     (if fails then [] else case disk of Content sessions \<Rightarrow> sessions | _ \<Rightarrow> [])"

definition writeStudySessions ::
  "writeResult \<Rightarrow> 'r session list \<Rightarrow> 'r session list jsonFile \<Rightarrow> bool \<times> 'r session list jsonFile" where
  "writeStudySessions result sessions disk =
     (case result of
        WriteOk \<Rightarrow> (True, Content sessions)
      | WriteFailsUntouched \<Rightarrow> (False, disk)
      | WriteFailsTruncated \<Rightarrow> (False, Unparseable))"

definition createStudySession ::
  "sessionEnv \<Rightarrow> string \<Rightarrow> string \<Rightarrow> string list \<Rightarrow> 'r \<Rightarrow> string \<Rightarrow> string option
     \<Rightarrow> 'r session list jsonFile \<Rightarrow> 'r session \<times> 'r session list jsonFile" where
  "createStudySession env user text feats res kind fname disk =
     (let session =
            \<lparr>sid = showInt (now env), userId = user,
             originalText = take 150 text @ (if 150 < length text then ''...'' else []),
             fullTextLength = length text, results = res, features = feats,
             timestamp = isoNow env, wordCount = length (splitWhitespace text),
             inputType = kind, fileName = fname\<rparr>;
          sessions = readStudySessions (readFails env) disk;
          limitedSessions = take 50 (session # sessions);
          (saveResult, disk') = writeStudySessions (writeResult env) limitedSessions disk
      in (session, disk'))"

text \<open>One request that appends, and a run of them against the same file.\<close>

record 'r appendCall =
  callEnv :: sessionEnv
  callUser :: string
  callText :: string
  callFeatures :: "string list"
  callResults :: 'r
  callInputType :: string
  callFileName :: "string option"

definition appendSession :: "'r appendCall \<Rightarrow> 'r session list jsonFile \<Rightarrow> 'r session list jsonFile" where
  "appendSession c disk =
     snd (createStudySession (callEnv c) (callUser c) (callText c) (callFeatures c)
            (callResults c) (callInputType c) (callFileName c) disk)"

definition persisted :: "'r session list jsonFile \<Rightarrow> 'r session list" where
  "persisted disk = readStudySessions False disk"

section \<open>Account store and its handlers (routes/auth.js)\<close>

record user =
  uid :: string
  email :: string
  password :: string
  name :: string
  createdAt :: string
  lastLogin :: string

text \<open>The users file and the module-level mirror \<open>inMemoryUsers\<close>.\<close>

record store =
  usersFile :: "user list jsonFile"
  inMemoryUsers :: "user list"

text \<open>
  What the file system does during one call of \<open>readUsers\<close> or \<open>writeUsers\<close>: each
  operation of the source that can throw has its outcome here.
\<close>

record accountIo =
  mkdirFails :: bool
  readFileFails :: bool
  backupReadFails :: bool
  writeFileResult :: writeResult
  verifyFails :: bool
  restoreResult :: writeResult

text \<open>
  \<open>writeUsers\<close>. Its argument is an array by its type, so the \<open>Array.isArray\<close> test passes.
  The three \<open>return true\<close> of the source are the \<open>True\<close> below: after a verified write, in
  the handler of a failed verification, and in the outer \<open>catch\<close> (where also a failed
  restore lands).
\<close>

definition writeUsers :: "accountIo \<Rightarrow> user list \<Rightarrow> store \<Rightarrow> bool \<times> store" where
  "writeUsers io users st =
     (if mkdirFails io then (True, st\<lparr>inMemoryUsers := users\<rparr>)
      else
        let backupData =
              (if backupReadFails io then []
               else case usersFile st of Content current \<Rightarrow> current | _ \<Rightarrow> [])
        in case writeFileResult io of
             WriteFailsUntouched \<Rightarrow> (True, st\<lparr>inMemoryUsers := users\<rparr>)
           | WriteFailsTruncated \<Rightarrow> (True, \<lparr>usersFile = Unparseable, inMemoryUsers = users\<rparr>)
           | WriteOk \<Rightarrow>
               if \<not> verifyFails io
               then (True, \<lparr>usersFile = Content users, inMemoryUsers = users\<rparr>)
               else if backupData \<noteq> []
               then (case restoreResult io of
                       WriteOk \<Rightarrow> (True, \<lparr>usersFile = Content backupData, inMemoryUsers = users\<rparr>)
                     | WriteFailsUntouched \<Rightarrow>
                         (True, \<lparr>usersFile = Content users, inMemoryUsers = users\<rparr>)
                     | WriteFailsTruncated \<Rightarrow>
                         (True, \<lparr>usersFile = Unparseable, inMemoryUsers = users\<rparr>))
               else (True, \<lparr>usersFile = Content users, inMemoryUsers = users\<rparr>))"

definition readUsers :: "accountIo \<Rightarrow> store \<Rightarrow> user list \<times> store" where
  "readUsers io st =
     (if mkdirFails io \<or> readFileFails io then (inMemoryUsers st, st)
      else case usersFile st of
             Missing \<Rightarrow> ([], snd (writeUsers io [] st))
           | Blank \<Rightarrow> ([], st)
           | Unparseable \<Rightarrow> (inMemoryUsers st, st)
           | Content users \<Rightarrow> (users, st\<lparr>inMemoryUsers := users\<rparr>))"

text \<open>
  The libraries: \<open>bcrypt.hash(password, 12)\<close>, \<open>bcrypt.compare(password, hash)\<close> and
  \<open>jwt.sign({userId, email}, JWT_SECRET, ...)\<close>. On strings none of them throws; given
  anything but a string, \<open>bcrypt\<close> rejects with \<open>Illegal arguments\<close> (see \<open>hashPassword\<close> and
  \<open>comparePassword\<close> below).
\<close>

record crypto =
  bcryptHash :: "string \<Rightarrow> string"
  bcryptCompare :: "string \<Rightarrow> string \<Rightarrow> bool"
  jwtSign :: "string \<Rightarrow> string \<Rightarrow> string"


definition hashPassword :: "crypto \<Rightarrow> json \<Rightarrow> exn + string" where
  "hashPassword lib passwordValue =
     (case passwordValue of JString p \<Rightarrow> Inr (bcryptHash lib p) | _ \<Rightarrow> Inl IllegalArguments)"

definition comparePassword :: "crypto \<Rightarrow> json \<Rightarrow> string \<Rightarrow> exn + bool" where
  "comparePassword lib passwordValue hash =
     (case passwordValue of JString p \<Rightarrow> Inr (bcryptCompare lib p hash) | _ \<Rightarrow> Inl IllegalArguments)"

record publicUser =
  publicId :: string
  publicEmail :: string
  publicName :: string
  publicCreatedAt :: string
  publicLastLogin :: "string option"

datatype response =
  ErrorResponse nat string
  | SuccessResponse nat string string publicUser

text \<open>
  A field of the request body (the object that \<open>express.json()\<close> parsed) is any JSON
  value, or absent (\<open>undefined\<close>): a \<^typ>\<open>json option\<close>. The handlers apply string
  operations to the fields without testing their type; what JavaScript does then is
  written out.

  \<open>password.length < 6\<close>: the length of a string or an array; a number or a boolean has no
  \<open>length\<close> and \<open>undefined < 6\<close> is false; \<open>null\<close> has no properties at all; an object gives
  its own \<open>length\<close> property, if any, compared as a number (\<open>null\<close> and the booleans count
  as 0 and 1).
\<close>

definition lengthBelowSix :: "runtime \<Rightarrow> json \<Rightarrow> exn + bool" where
  "lengthBelowSix rt passwordValue =
     (case passwordValue of
        JString s \<Rightarrow> Inr (length s < 6)
      | JArray xs \<Rightarrow> Inr (length xs < 6)
      | JObject kvs \<Rightarrow>
          (case map_of kvs ''length'' of
             None \<Rightarrow> Inr False
           | Some JNull \<Rightarrow> Inr True
           | Some (JBool b) \<Rightarrow> Inr True
           | Some (JNumber n) \<Rightarrow> Inr (n < 6)
           | Some v \<Rightarrow> (case coerceLess rt v 6 of None \<Rightarrow> Inl TypeError | Some b \<Rightarrow> Inr b))
      | JNull \<Rightarrow> Inl TypeError
      | _ \<Rightarrow> Inr False)"

text \<open>
  \<open>email.includes('@')\<close>: a substring test on a string, a membership test on an array;
  nothing else has a callable \<open>includes\<close>.
\<close>

definition includesAt :: "json \<Rightarrow> exn + bool" where
  "includesAt emailValue =
     (case emailValue of
        JString s \<Rightarrow> Inr (includesStr s ''@'')
      | JArray xs \<Rightarrow> Inr (JString ''@'' \<in> set xs)
      | _ \<Rightarrow> Inl TypeError)"

text \<open>
  \<open>users.find(user => user.email === email.toLowerCase())\<close>: only a string has
  \<open>toLowerCase\<close>; for another value the callback throws at the first user, and is never
  called when there is no user.
\<close>

definition findByEmail :: "user list \<Rightarrow> json \<Rightarrow> exn + user option" where
  "findByEmail users emailValue =
     (case emailValue of
        JString e \<Rightarrow> Inr (find (\<lambda>u. email u = toLowerCase e) users)
      | _ \<Rightarrow> if users = [] then Inr None else Inl TypeError)"

record clock =
  dateNow :: int
  isoCreatedAt :: string
  isoLastLogin :: string

text \<open>
  The \<open>try\<close> block of the registration handler after the test for missing fields: what it
  throws (\<open>Inl\<close>) or answers (\<open>Inr\<close>), and the store it leaves. After the duplicate check,
  \<open>bcrypt.hash(password, 12)\<close>, \<open>email.toLowerCase()\<close> and \<open>name.trim()\<close> run in this order.
\<close>

definition tryRegister ::
  "crypto \<Rightarrow> runtime \<Rightarrow> clock \<Rightarrow> accountIo \<Rightarrow> accountIo \<Rightarrow> json \<Rightarrow> json \<Rightarrow> json \<Rightarrow> store
     \<Rightarrow> (exn + response) \<times> store" where
  "tryRegister lib rt clk ioRead ioWrite emailValue passwordValue nameValue st =
     (case lengthBelowSix rt passwordValue of
        Inl e \<Rightarrow> (Inl e, st)
      | Inr True \<Rightarrow> (Inr (ErrorResponse 400 ''Password must be at least 6 characters long''), st)
      | Inr False \<Rightarrow>
     (case includesAt emailValue of
        Inl e \<Rightarrow> (Inl e, st)
      | Inr False \<Rightarrow> (Inr (ErrorResponse 400 ''Please provide a valid email address''), st)
      | Inr True \<Rightarrow>
     (let (users, st1) = readUsers ioRead st
      in case findByEmail users emailValue of
           Inl e \<Rightarrow> (Inl e, st1)
         | Inr (Some existingUser) \<Rightarrow>
             (Inr (ErrorResponse 409 ''User with this email already exists''), st1)
         | Inr None \<Rightarrow>
     (case hashPassword lib passwordValue of
        Inl e \<Rightarrow> (Inl e, st1)
      | Inr hashedPassword \<Rightarrow>
     (case emailValue of
        JString e \<Rightarrow>
          (case nameValue of
             JString n \<Rightarrow>
               (let newUser =
                      \<lparr>uid = showInt (dateNow clk), email = toLowerCase e,
                       password = hashedPassword, name = trim n,
                       createdAt = isoCreatedAt clk, lastLogin = isoLastLogin clk\<rparr>;
                    (saveResult, st2) = writeUsers ioWrite (users @ [newUser]) st1
                in if \<not> saveResult
                   then (Inr (ErrorResponse 500 ''Failed to create user account''), st2)
                   else (Inr (SuccessResponse 201 ''User registered successfully''
                                (jwtSign lib (uid newUser) (email newUser))
                                \<lparr>publicId = uid newUser, publicEmail = email newUser,
                                 publicName = name newUser, publicCreatedAt = createdAt newUser,
                                 publicLastLogin = None\<rparr>),
                         st2))
           | _ \<Rightarrow> (Inl TypeError, st1))
      | _ \<Rightarrow> (Inl TypeError, st1))))))"

text \<open>
  The handler: the test for missing fields (\<open>!email || !password || !name\<close>), the \<open>try\<close>
  block, and the \<open>catch\<close> that answers 500 to whatever was thrown.
\<close>

definition register ::
  "crypto \<Rightarrow> runtime \<Rightarrow> clock \<Rightarrow> accountIo \<Rightarrow> accountIo
     \<Rightarrow> json option \<Rightarrow> json option \<Rightarrow> json option \<Rightarrow> store \<Rightarrow> response \<times> store" where
  "register lib rt clk ioRead ioWrite emailField passwordField nameField st =
     (case (emailField, passwordField, nameField) of
        (Some emailValue, Some passwordValue, Some nameValue) \<Rightarrow>
          if \<not> truthy emailField \<or> \<not> truthy passwordField \<or> \<not> truthy nameField
          then (ErrorResponse 400 ''All fields are required: name, email, password'', st)
          else (case tryRegister lib rt clk ioRead ioWrite emailValue passwordValue nameValue st of
                  (Inl error, st') \<Rightarrow>
                    (ErrorResponse 500 ''Internal server error during registration'', st')
                | (Inr answer, st') \<Rightarrow> (answer, st'))
      | _ \<Rightarrow> (ErrorResponse 400 ''All fields are required: name, email, password'', st))"

text \<open>\<open>user.lastLogin = ...\<close> on the element that \<open>users.find\<close> returned: the first match.\<close>

fun updateFirst :: "('a \<Rightarrow> bool) \<Rightarrow> ('a \<Rightarrow> 'a) \<Rightarrow> 'a list \<Rightarrow> 'a list" where
  "updateFirst P f [] = []"
| "updateFirst P f (x # xs) = (if P x then f x # xs else x # updateFirst P f xs)"

definition tryLogin ::
  "crypto \<Rightarrow> clock \<Rightarrow> accountIo \<Rightarrow> accountIo \<Rightarrow> json \<Rightarrow> json \<Rightarrow> store
     \<Rightarrow> (exn + response) \<times> store" where
  "tryLogin lib clk ioRead ioWrite emailValue passwordValue st =
     (let (users, st1) = readUsers ioRead st
      in case findByEmail users emailValue of
           Inl e \<Rightarrow> (Inl e, st1)
         | Inr None \<Rightarrow> (Inr (ErrorResponse 401 ''Invalid email or password''), st1)
         | Inr (Some found) \<Rightarrow>
             (case comparePassword lib passwordValue (password found) of
                Inl e \<Rightarrow> (Inl e, st1)
              | Inr False \<Rightarrow> (Inr (ErrorResponse 401 ''Invalid email or password''), st1)
              | Inr True \<Rightarrow>
                  (let updated = found\<lparr>lastLogin := isoLastLogin clk\<rparr>;
                       (saved, st2) =
                         writeUsers ioWrite
                           (updateFirst (\<lambda>u. email u = email found) (\<lambda>u. updated) users) st1
                   in (Inr (SuccessResponse 200 ''Login successful''
                              (jwtSign lib (uid updated) (email updated))
                              \<lparr>publicId = uid updated, publicEmail = email updated,
                               publicName = name updated, publicCreatedAt = createdAt updated,
                               publicLastLogin = Some (lastLogin updated)\<rparr>),
                       st2))))"

definition login ::
  "crypto \<Rightarrow> clock \<Rightarrow> accountIo \<Rightarrow> accountIo \<Rightarrow> json option \<Rightarrow> json option \<Rightarrow> store
     \<Rightarrow> response \<times> store" where
  "login lib clk ioRead ioWrite emailField passwordField st =
     (case (emailField, passwordField) of
        (Some emailValue, Some passwordValue) \<Rightarrow>
          if \<not> truthy emailField \<or> \<not> truthy passwordField
          then (ErrorResponse 400 ''Email and password are required'', st)
          else (case tryLogin lib clk ioRead ioWrite emailValue passwordValue st of
                  (Inl error, st') \<Rightarrow> (ErrorResponse 500 ''Internal server error during login'', st')
                | (Inr answer, st') \<Rightarrow> (answer, st'))
      | _ \<Rightarrow> (ErrorResponse 400 ''Email and password are required'', st))"

section \<open>The specification's wording, for comparison\<close>

text \<open>
  Summary, as the specification describes it, a sentence being the trimmed piece between
  terminators (the string that the summary shows): keep the sentences longer than 10
  characters, rank them by keyword first, then longer sentence, then earlier position,
  take the first four, put them back in position order, join with periods and append the
  marker.
\<close>

definition summaryClaimed :: "string \<Rightarrow> string" where
  "summaryClaimed text =
     (let sentences = filter (\<lambda>s. 10 < length s) (map trim (splitSentences text));
          ranked = sort_key
            (\<lambda>i. (\<not> hasImportantKeywords (sentences ! i), - int (length (sentences ! i)), i))
            [0..<length sentences];
          restored = sort (take 4 ranked)
      in join ''. '' (map (\<lambda>i. sentences ! i) restored) @ ''.'' @ '' [AI Enhanced Summary]'')"

text \<open>
  Key points, as the specification describes them, a sentence being again the trimmed
  piece: keep the sentences longer than 15 characters, score each by the formula, take the
  five best (the earlier first among equal scores), put them back in position order and
  number them from 1. The point is the sentence closed with a period, as the source
  shows it.
\<close>

definition scoreClaimed :: "string \<Rightarrow> nat \<Rightarrow> rat" where
  "scoreClaimed s index =
     min (of_nat (length s) / 50) 3
     + (if hasImportantKeywords s then 2 else 0)
     + (if isDefinition s then 2 else 0)
     + max 0 ((10 - of_nat index) / 5)"

definition keyPointsClaimed :: "string \<Rightarrow> keyPoint list" where
  "keyPointsClaimed text =
     (let sentences = filter (\<lambda>s. 15 < length s) (map trim (splitSentences text));
          ranked = sort_key (\<lambda>i. - scoreClaimed (sentences ! i) i) [0..<length sentences];
          restored = sort (take 5 ranked)
      in map (\<lambda>(i, index). \<lparr>id' = index + 1, point = sentences ! i @ ''.''\<rparr>)
             (withIndex restored))"

text \<open>
  Key terms, as the specification describes them (every distinct token is a candidate),
  and as amended (only the first eight distinct tokens are).
\<close>

definition firstSeen :: "'a list \<Rightarrow> 'a list" where
  "firstSeen xs = rev (remdups (rev xs))"

definition qualifies :: "string \<Rightarrow> bool" where
  "qualifies word =
     (toLowerCase word \<notin> set [''however'', ''although'', ''because'', ''therefore'', ''additionally'']
      \<and> isAlphabetic word)"

definition genericTerms :: "string list" where
  "genericTerms = [''Concept'', ''Theory'', ''Application'', ''Method'']"

definition keyTermsClaimed :: "string \<Rightarrow> string list" where
  "keyTermsClaimed text =
     (let candidates = firstSeen (filter (\<lambda>word. 6 < length word) (splitWhitespace text));
          qualifying = filter qualifies candidates
      in if 4 \<le> length qualifying then take 4 qualifying else genericTerms)"

definition keyTermsAmended :: "string \<Rightarrow> string list" where
  "keyTermsAmended text =
     (let candidates = take 8 (firstSeen (filter (\<lambda>word. 6 < length word) (splitWhitespace text)));
          qualifying = filter qualifies candidates
      in if 4 \<le> length qualifying then take 4 qualifying else genericTerms)"

section \<open>Properties of the account store\<close>









lemma find_Some_of_member: "\<exists>x \<in> set xs. P x \<Longrightarrow> \<exists>y. find P xs = Some y"
  by (cases "find P xs") (auto simp: find_None_iff)

lemma readUsers_list:
  "(\<not> mkdirFails io \<and> \<not> readFileFails io \<and> usersFile st = Content users
      \<longrightarrow> fst (readUsers io st) = users)
   \<and> (mkdirFails io \<or> readFileFails io \<or> usersFile st = Unparseable
      \<longrightarrow> fst (readUsers io st) = inMemoryUsers st)
   \<and> (\<not> mkdirFails io \<and> \<not> readFileFails io \<and> (usersFile st = Missing \<or> usersFile st = Blank)
      \<longrightarrow> fst (readUsers io st) = [])"
  by (auto simp: readUsers_def)

lemma register_duplicate:
  assumes "e \<noteq> []" "truthy (Some pv)" "truthy (Some nv)" "lengthBelowSix rt pv = Inr False"
    "includesStr e ''@''"
    "list_ex (\<lambda>u. email u = toLowerCase e) (fst (readUsers ioRead st))"
  shows "register lib rt clk ioRead ioWrite (Some (JString e)) (Some pv) (Some nv) st
         = (ErrorResponse 409 ''User with this email already exists'', snd (readUsers ioRead st))"
proof -
  obtain users st1 where r: "readUsers ioRead st = (users, st1)"
    by (cases "readUsers ioRead st")
  from assms r obtain y where "find (\<lambda>u. email u = toLowerCase e) users = Some y"
    using find_Some_of_member [of users "\<lambda>u. email u = toLowerCase e"]
    by (auto simp: list_ex_iff)
  then have "tryRegister lib rt clk ioRead ioWrite (JString e) pv nv st
      = (Inr (ErrorResponse 409 ''User with this email already exists''), st1)"
    using assms r by (simp add: tryRegister_def includesAt_def findByEmail_def)
  then show ?thesis
    using assms r by (simp add: register_def truthy_def)
qed

lemma login_rejected:
  assumes "e \<noteq> []" "p \<noteq> []"
    "find (\<lambda>u. email u = toLowerCase e) (fst (readUsers ioRead st)) = Some found"
    "\<not> bcryptCompare lib p (password found)"
  shows "login lib clk ioRead ioWrite (Some (JString e)) (Some (JString p)) st
         = (ErrorResponse 401 ''Invalid email or password'', snd (readUsers ioRead st))"
proof -
  obtain users st1 where r: "readUsers ioRead st = (users, st1)"
    by (cases "readUsers ioRead st")
  have "tryLogin lib clk ioRead ioWrite (JString e) (JString p) st
      = (Inr (ErrorResponse 401 ''Invalid email or password''), st1)"
    using assms r by (simp add: tryLogin_def findByEmail_def comparePassword_def)
  then show ?thesis
    using assms r by (simp add: login_def truthy_def)
qed

lemma login_unknown:
  assumes "e \<noteq> []" "truthy (Some pv)"
    "find (\<lambda>u. email u = toLowerCase e) (fst (readUsers ioRead st)) = None"
  shows "login lib clk ioRead ioWrite (Some (JString e)) (Some pv) st
         = (ErrorResponse 401 ''Invalid email or password'', snd (readUsers ioRead st))"
proof -
  obtain users st1 where r: "readUsers ioRead st = (users, st1)"
    by (cases "readUsers ioRead st")
  have "tryLogin lib clk ioRead ioWrite (JString e) pv st
      = (Inr (ErrorResponse 401 ''Invalid email or password''), st1)"
    using assms r by (simp add: tryLogin_def findByEmail_def)
  then show ?thesis
    using assms r by (simp add: login_def truthy_def)
qed

lemma login_never_404: "fst (login lib clk ioRead ioWrite emailField passwordField st)
     \<noteq> ErrorResponse 404 message"
proof -
  obtain users st1 where r: "readUsers ioRead st = (users, st1)"
    by (cases "readUsers ioRead st")
  have "fst (tryLogin lib clk ioRead ioWrite ev pv st) \<noteq> Inr (ErrorResponse 404 message)"
    for ev pv
    by (auto simp: tryLogin_def r Let_def split_beta split: sum.splits option.splits bool.splits)
  then show ?thesis
    by (auto simp: login_def split_beta split: option.splits sum.splits prod.splits)
qed

text \<open>
  Claim C7, as amended. Registering, with a body that passes validation and a string
  email, an email that the user list read for the request contains (compared in lower
  case) is answered 409 \<open>User with this email already exists\<close> and leaves the store as that
  read left it. The list read is the content of the users file when the file is read and
  parsed, the in-memory mirror when reading fails or the file does not parse, and empty
  when the file is missing or blank. Logging in with a non-empty string email and a
  non-empty string password that \<open>bcrypt.compare\<close> rejects for the user found is answered
  401 \<open>Invalid email or password\<close>, the very answer given when the list read has no user
  with that email; a login is never answered 404.
\<close>

theorem duplicate_email_and_wrong_password:
  "(e \<noteq> [] \<and> truthy (Some pv) \<and> truthy (Some nv) \<and> lengthBelowSix rt pv = Inr False
      \<and> includesStr e ''@''
      \<and> list_ex (\<lambda>u. email u = toLowerCase e) (fst (readUsers ioRead st))
    \<longrightarrow> register lib rt clk ioRead ioWrite (Some (JString e)) (Some pv) (Some nv) st
          = (ErrorResponse 409 ''User with this email already exists'', snd (readUsers ioRead st)))
   \<and> (\<not> mkdirFails ioRead \<and> \<not> readFileFails ioRead \<and> usersFile st = Content users
      \<longrightarrow> fst (readUsers ioRead st) = users)
   \<and> (mkdirFails ioRead \<or> readFileFails ioRead \<or> usersFile st = Unparseable
      \<longrightarrow> fst (readUsers ioRead st) = inMemoryUsers st)
   \<and> (\<not> mkdirFails ioRead \<and> \<not> readFileFails ioRead
        \<and> (usersFile st = Missing \<or> usersFile st = Blank)
      \<longrightarrow> fst (readUsers ioRead st) = [])
   \<and> (e \<noteq> [] \<and> p \<noteq> []
      \<and> find (\<lambda>u. email u = toLowerCase e) (fst (readUsers ioRead st)) = Some found
      \<and> \<not> bcryptCompare lib p (password found)
    \<longrightarrow> login lib clk ioRead ioWrite (Some (JString e)) (Some (JString p)) st
          = (ErrorResponse 401 ''Invalid email or password'', snd (readUsers ioRead st)))
   \<and> (e \<noteq> [] \<and> truthy (Some pv)
      \<and> find (\<lambda>u. email u = toLowerCase e) (fst (readUsers ioRead st)) = None
    \<longrightarrow> login lib clk ioRead ioWrite (Some (JString e)) (Some pv) st
          = (ErrorResponse 401 ''Invalid email or password'', snd (readUsers ioRead st)))
   \<and> fst (login lib clk ioRead ioWrite emailField passwordField st) \<noteq> ErrorResponse 404 message"
  using register_duplicate [of e pv nv rt ioRead st lib clk ioWrite]
    readUsers_list [of ioRead st users]
    login_rejected [of e p ioRead st found lib clk ioWrite]
    login_unknown [of e pv ioRead st lib clk ioWrite]
    login_never_404 [of lib clk ioRead ioWrite emailField passwordField st message]
  by blast

text \<open>
  The users file holds \<open>ann@example.org\<close>. Registering \<open>Ann@Example.org\<close> again with a valid
  body is answered 409; a login with the wrong password \<open>letmein\<close> is answered 401.
\<close>

theorem duplicate_email_and_wrong_password_witness:
  "fst (register
          \<lparr>bcryptHash = (\<lambda>p. ''$2a$12$'' @ p), bcryptCompare = (\<lambda>p h. h = ''$2a$12$'' @ p),
           jwtSign = (\<lambda>u e. u @ ''.'' @ e)\<rparr>
          \<lparr>mathRandom = (\<lambda>i. 0), currentTime = 1700000000000, arraySort = js_sort,
           coerceLess = (\<lambda>v n. None)\<rparr>
          \<lparr>dateNow = 1700000000000, isoCreatedAt = ''2023-11-14T22:13:20.000Z'',
           isoLastLogin = ''2023-11-14T22:13:20.001Z''\<rparr>
          \<lparr>mkdirFails = False, readFileFails = False, backupReadFails = False,
           writeFileResult = WriteOk, verifyFails = False, restoreResult = WriteOk\<rparr>
          \<lparr>mkdirFails = False, readFileFails = False, backupReadFails = False,
           writeFileResult = WriteOk, verifyFails = False, restoreResult = WriteOk\<rparr>
          (Some (JString ''Ann@Example.org'')) (Some (JString ''secret1'')) (Some (JString ''Ann''))
          \<lparr>usersFile = Content
             [\<lparr>uid = ''1699999999999'', email = ''ann@example.org'', password = ''$2a$12$secret1'',
               name = ''Ann'', createdAt = ''2023-11-14T22:13:19.999Z'',
               lastLogin = ''2023-11-14T22:13:19.999Z''\<rparr>],
           inMemoryUsers = []\<rparr>)
     = ErrorResponse 409 ''User with this email already exists''
   \<and> fst (login
          \<lparr>bcryptHash = (\<lambda>p. ''$2a$12$'' @ p), bcryptCompare = (\<lambda>p h. h = ''$2a$12$'' @ p),
           jwtSign = (\<lambda>u e. u @ ''.'' @ e)\<rparr>
          \<lparr>dateNow = 1700000000000, isoCreatedAt = ''2023-11-14T22:13:20.000Z'',
           isoLastLogin = ''2023-11-14T22:13:20.001Z''\<rparr>
          \<lparr>mkdirFails = False, readFileFails = False, backupReadFails = False,
           writeFileResult = WriteOk, verifyFails = False, restoreResult = WriteOk\<rparr>
          \<lparr>mkdirFails = False, readFileFails = False, backupReadFails = False,
           writeFileResult = WriteOk, verifyFails = False, restoreResult = WriteOk\<rparr>
          (Some (JString ''Ann@Example.org'')) (Some (JString ''letmein''))
          \<lparr>usersFile = Content
             [\<lparr>uid = ''1699999999999'', email = ''ann@example.org'', password = ''$2a$12$secret1'',
               name = ''Ann'', createdAt = ''2023-11-14T22:13:19.999Z'',
               lastLogin = ''2023-11-14T22:13:19.999Z''\<rparr>],
           inMemoryUsers = []\<rparr>)
     = ErrorResponse 401 ''Invalid email or password''"
proof -
  let ?lib = "\<lparr>bcryptHash = (\<lambda>p. ''$2a$12$'' @ p), bcryptCompare = (\<lambda>p h. h = ''$2a$12$'' @ p),
           jwtSign = (\<lambda>u e. u @ ''.'' @ e)\<rparr>"
  let ?rt = "\<lparr>mathRandom = (\<lambda>i. 0), currentTime = 1700000000000, arraySort = js_sort,
           coerceLess = (\<lambda>v n. None)\<rparr>"
  let ?io = "\<lparr>mkdirFails = False, readFileFails = False, backupReadFails = False,
           writeFileResult = WriteOk, verifyFails = False, restoreResult = WriteOk\<rparr>"
  let ?ann = "\<lparr>uid = ''1699999999999'', email = ''ann@example.org'', password = ''$2a$12$secret1'',
               name = ''Ann'', createdAt = ''2023-11-14T22:13:19.999Z'',
               lastLogin = ''2023-11-14T22:13:19.999Z''\<rparr>"
  let ?st = "\<lparr>usersFile = Content [?ann], inMemoryUsers = []\<rparr>"
  have valid: "''Ann@Example.org'' \<noteq> [] \<and> truthy (Some (JString ''secret1''))
      \<and> truthy (Some (JString ''Ann'')) \<and> lengthBelowSix ?rt (JString ''secret1'') = Inr False
      \<and> includesStr ''Ann@Example.org'' ''@''
      \<and> list_ex (\<lambda>u. email u = toLowerCase ''Ann@Example.org'') (fst (readUsers ?io ?st))"
    by code_simp
  have wrong: "''Ann@Example.org'' \<noteq> [] \<and> ''letmein'' \<noteq> []
      \<and> find (\<lambda>u. email u = toLowerCase ''Ann@Example.org'') (fst (readUsers ?io ?st)) = Some ?ann
      \<and> \<not> bcryptCompare ?lib ''letmein'' (password ?ann)"
    by code_simp
  have "register ?lib ?rt
          \<lparr>dateNow = 1700000000000, isoCreatedAt = ''2023-11-14T22:13:20.000Z'',
           isoLastLogin = ''2023-11-14T22:13:20.001Z''\<rparr> ?io ?io
          (Some (JString ''Ann@Example.org'')) (Some (JString ''secret1'')) (Some (JString ''Ann'')) ?st
        = (ErrorResponse 409 ''User with this email already exists'', snd (readUsers ?io ?st))"
    using valid
      duplicate_email_and_wrong_password
        [where e = "''Ann@Example.org''" and pv = "JString ''secret1''" and nv = "JString ''Ann''"
           and rt = ?rt and ioRead = ?io and st = ?st]
    by blast
  moreover have "login ?lib
          \<lparr>dateNow = 1700000000000, isoCreatedAt = ''2023-11-14T22:13:20.000Z'',
           isoLastLogin = ''2023-11-14T22:13:20.001Z''\<rparr> ?io ?io
          (Some (JString ''Ann@Example.org'')) (Some (JString ''letmein'')) ?st
        = (ErrorResponse 401 ''Invalid email or password'', snd (readUsers ?io ?st))"
    using wrong
      duplicate_email_and_wrong_password
        [where e = "''Ann@Example.org''" and p = "''letmein''" and ioRead = ?io
           and st = ?st and found = ?ann and lib = ?lib]
    by blast
  ultimately show ?thesis by simp
qed

text \<open>
  The claim as first stated fails when the store holds the email but the read does not
  return it. A first registration whose file write fails is answered 201 and leaves the
  user in the mirror only; the same registration again, with a healthy disk, reads the
  file without that user and is answered 201 again, not 409. And a login for an existing
  email with the JSON number 123456 as (wrong) password is answered 500, not 401.
\<close>

theorem duplicate_email_counterexample:
  "snd (register
          \<lparr>bcryptHash = (\<lambda>p. ''$2a$12$'' @ p), bcryptCompare = (\<lambda>p h. h = ''$2a$12$'' @ p),
           jwtSign = (\<lambda>u e. u @ ''.'' @ e)\<rparr>
          \<lparr>mathRandom = (\<lambda>i. 0), currentTime = 1700000000000, arraySort = js_sort,
           coerceLess = (\<lambda>v n. None)\<rparr>
          \<lparr>dateNow = 1700000000000, isoCreatedAt = ''2023-11-14T22:13:20.000Z'',
           isoLastLogin = ''2023-11-14T22:13:20.001Z''\<rparr>
          \<lparr>mkdirFails = False, readFileFails = False, backupReadFails = False,
           writeFileResult = WriteOk, verifyFails = False, restoreResult = WriteOk\<rparr>
          \<lparr>mkdirFails = False, readFileFails = False, backupReadFails = False,
           writeFileResult = WriteFailsUntouched, verifyFails = False, restoreResult = WriteOk\<rparr>
          (Some (JString ''ann@example.org'')) (Some (JString ''secret1'')) (Some (JString ''Ann''))
          \<lparr>usersFile = Content [], inMemoryUsers = []\<rparr>)
     = \<lparr>usersFile = Content [],
        inMemoryUsers =
          [\<lparr>uid = ''1700000000000'', email = ''ann@example.org'', password = ''$2a$12$secret1'',
            name = ''Ann'', createdAt = ''2023-11-14T22:13:20.000Z'',
            lastLogin = ''2023-11-14T22:13:20.001Z''\<rparr>]\<rparr>
   \<and> fst (register
          \<lparr>bcryptHash = (\<lambda>p. ''$2a$12$'' @ p), bcryptCompare = (\<lambda>p h. h = ''$2a$12$'' @ p),
           jwtSign = (\<lambda>u e. u @ ''.'' @ e)\<rparr>
          \<lparr>mathRandom = (\<lambda>i. 0), currentTime = 1700000000000, arraySort = js_sort,
           coerceLess = (\<lambda>v n. None)\<rparr>
          \<lparr>dateNow = 1700000000500, isoCreatedAt = ''2023-11-14T22:13:20.500Z'',
           isoLastLogin = ''2023-11-14T22:13:20.501Z''\<rparr>
          \<lparr>mkdirFails = False, readFileFails = False, backupReadFails = False,
           writeFileResult = WriteOk, verifyFails = False, restoreResult = WriteOk\<rparr>
          \<lparr>mkdirFails = False, readFileFails = False, backupReadFails = False,
           writeFileResult = WriteOk, verifyFails = False, restoreResult = WriteOk\<rparr>
          (Some (JString ''ann@example.org'')) (Some (JString ''secret1'')) (Some (JString ''Ann''))
          \<lparr>usersFile = Content [],
           inMemoryUsers =
             [\<lparr>uid = ''1700000000000'', email = ''ann@example.org'', password = ''$2a$12$secret1'',
               name = ''Ann'', createdAt = ''2023-11-14T22:13:20.000Z'',
               lastLogin = ''2023-11-14T22:13:20.001Z''\<rparr>]\<rparr>)
     = SuccessResponse 201 ''User registered successfully'' ''1700000000500.ann@example.org''
         \<lparr>publicId = ''1700000000500'', publicEmail = ''ann@example.org'', publicName = ''Ann'',
          publicCreatedAt = ''2023-11-14T22:13:20.500Z'', publicLastLogin = None\<rparr>
   \<and> fst (login
          \<lparr>bcryptHash = (\<lambda>p. ''$2a$12$'' @ p), bcryptCompare = (\<lambda>p h. h = ''$2a$12$'' @ p),
           jwtSign = (\<lambda>u e. u @ ''.'' @ e)\<rparr>
          \<lparr>dateNow = 1700000000000, isoCreatedAt = ''2023-11-14T22:13:20.000Z'',
           isoLastLogin = ''2023-11-14T22:13:20.001Z''\<rparr>
          \<lparr>mkdirFails = False, readFileFails = False, backupReadFails = False,
           writeFileResult = WriteOk, verifyFails = False, restoreResult = WriteOk\<rparr>
          \<lparr>mkdirFails = False, readFileFails = False, backupReadFails = False,
           writeFileResult = WriteOk, verifyFails = False, restoreResult = WriteOk\<rparr>
          (Some (JString ''ann@example.org'')) (Some (JNumber 123456))
          \<lparr>usersFile = Content
             [\<lparr>uid = ''1699999999999'', email = ''ann@example.org'', password = ''$2a$12$secret1'',
               name = ''Ann'', createdAt = ''2023-11-14T22:13:19.999Z'',
               lastLogin = ''2023-11-14T22:13:19.999Z''\<rparr>],
           inMemoryUsers = []\<rparr>)
     = ErrorResponse 500 ''Internal server error during login''"
  by code_simp

section \<open>Properties of the session store\<close>

lemma persisted_append:
  "persisted (appendSession c disk) =
     (case writeResult (callEnv c) of
        WriteOk \<Rightarrow>
          take 50 (fst (createStudySession (callEnv c) (callUser c) (callText c) (callFeatures c)
                          (callResults c) (callInputType c) (callFileName c) disk)
                   # readStudySessions (readFails (callEnv c)) disk)
      | WriteFailsUntouched \<Rightarrow> persisted disk
      | WriteFailsTruncated \<Rightarrow> [])"
  by (simp add: appendSession_def createStudySession_def writeStudySessions_def persisted_def
      readStudySessions_def Let_def split: writeResult.splits)

lemma append_keeps_cap:
  "length (persisted disk) \<le> 50 \<Longrightarrow> length (persisted (appendSession c disk)) \<le> 50"
  by (simp add: persisted_append split: writeResult.splits)

lemma appends_keep_cap:
  "length (persisted disk) \<le> 50 \<Longrightarrow> length (persisted (fold appendSession calls disk)) \<le> 50"
proof (induction calls arbitrary: disk)
  case Nil
  then show ?case by simp
next
  case (Cons c calls)
  from Cons.prems have "length (persisted (appendSession c disk)) \<le> 50"
    by (rule append_keeps_cap)
  then show ?case using Cons.IH by simp
qed

text \<open>
  Claim C6. Whatever the requests and whatever the disk does at each of them, a session
  file that starts within the cap (in particular one that does not exist yet) never holds
  more than 50 sessions. An appendSession whose write succeeds leaves the new session followed by
  the sessions read, cut to 50: when the read succeeded too, the new session and the 49
  most recent of the old ones, whoever their users are.
\<close>

theorem session_store_cap:
  "(length (persisted disk) \<le> 50 \<longrightarrow> length (persisted (fold appendSession calls disk)) \<le> 50)
   \<and> length (persisted (fold appendSession calls (Missing :: 'r session list jsonFile))) \<le> 50
   \<and> (writeResult (callEnv c) = WriteOk \<longrightarrow>
        persisted (appendSession c disk) =
          take 50 (fst (createStudySession (callEnv c) (callUser c) (callText c) (callFeatures c)
                          (callResults c) (callInputType c) (callFileName c) disk)
                   # readStudySessions (readFails (callEnv c)) disk))
   \<and> (writeResult (callEnv c) = WriteOk \<and> \<not> readFails (callEnv c) \<longrightarrow>
        persisted (appendSession c disk) =
          fst (createStudySession (callEnv c) (callUser c) (callText c) (callFeatures c)
                 (callResults c) (callInputType c) (callFileName c) disk)
          # take 49 (persisted disk))"
proof -
  have fresh: "length (persisted (Missing :: 'r session list jsonFile)) \<le> 50"
    by (simp add: persisted_def readStudySessions_def)
  have front: "persisted (appendSession c disk) =
          fst (createStudySession (callEnv c) (callUser c) (callText c) (callFeatures c)
                 (callResults c) (callInputType c) (callFileName c) disk)
          # take 49 (persisted disk)"
    if "writeResult (callEnv c) = WriteOk \<and> \<not> readFails (callEnv c)"
    using that unfolding persisted_append by (simp add: persisted_def readStudySessions_def)
  show ?thesis
    using appends_keep_cap [of disk calls] appends_keep_cap [OF fresh, of calls] front
    by (simp add: persisted_append)
qed

text \<open>
  A full file of 50 sessions of user \<open>u1\<close>; user \<open>u2\<close> appends one. The file still holds
  50: the new session and 49 of the old.
\<close>

theorem session_store_cap_witness:
  "length (persisted (Content (replicate 50
      \<lparr>sid = ''1699999999999'', userId = ''u1'', originalText = ''old'', fullTextLength = 3,
       results = [(''summary'', ''old. [AI Enhanced Summary]'')], features = [''summary''],
       timestamp = ''2023-11-14T22:13:19.999Z'', wordCount = 1, inputType = ''text'',
       fileName = None\<rparr>))) \<le> 50
   \<and> persisted (appendSession
        \<lparr>callEnv = \<lparr>now = 1700000000000, isoNow = ''2023-11-14T22:13:20.000Z'',
                    readFails = False, writeResult = WriteOk\<rparr>,
         callUser = ''u2'', callText = ''Water boils'', callFeatures = [''summary''],
         callResults = [(''summary'', ''. [AI Enhanced Summary]'')],
         callInputType = ''text'', callFileName = None\<rparr>
        (Content (replicate 50
          \<lparr>sid = ''1699999999999'', userId = ''u1'', originalText = ''old'', fullTextLength = 3,
           results = [(''summary'', ''old. [AI Enhanced Summary]'')], features = [''summary''],
           timestamp = ''2023-11-14T22:13:19.999Z'', wordCount = 1, inputType = ''text'',
           fileName = None\<rparr>)))
     = \<lparr>sid = ''1700000000000'', userId = ''u2'', originalText = ''Water boils'',
        fullTextLength = 11, results = [(''summary'', ''. [AI Enhanced Summary]'')],
        features = [''summary''], timestamp = ''2023-11-14T22:13:20.000Z'', wordCount = 2,
        inputType = ''text'', fileName = None\<rparr>
       # replicate 49
          \<lparr>sid = ''1699999999999'', userId = ''u1'', originalText = ''old'', fullTextLength = 3,
           results = [(''summary'', ''old. [AI Enhanced Summary]'')], features = [''summary''],
           timestamp = ''2023-11-14T22:13:19.999Z'', wordCount = 1, inputType = ''text'',
           fileName = None\<rparr>
   \<and> length (persisted (fold appendSession
        [\<lparr>callEnv = \<lparr>now = 1700000000000, isoNow = ''2023-11-14T22:13:20.000Z'',
                     readFails = False, writeResult = WriteOk\<rparr>,
          callUser = ''u2'', callText = ''Water boils'', callFeatures = [''summary''],
          callResults = [(''summary'', ''. [AI Enhanced Summary]'')],
          callInputType = ''text'', callFileName = None\<rparr>]
        (Content (replicate 50
          \<lparr>sid = ''1699999999999'', userId = ''u1'', originalText = ''old'', fullTextLength = 3,
           results = [(''summary'', ''old. [AI Enhanced Summary]'')], features = [''summary''],
           timestamp = ''2023-11-14T22:13:19.999Z'', wordCount = 1, inputType = ''text'',
           fileName = None\<rparr>)))) \<le> 50"
proof -
  let ?old = "\<lparr>sid = ''1699999999999'', userId = ''u1'', originalText = ''old'', fullTextLength = 3,
       results = [(''summary'', ''old. [AI Enhanced Summary]'')], features = [''summary''],
       timestamp = ''2023-11-14T22:13:19.999Z'', wordCount = 1, inputType = ''text'',
       fileName = None\<rparr>"
  let ?c = "\<lparr>callEnv = \<lparr>now = 1700000000000, isoNow = ''2023-11-14T22:13:20.000Z'',
                    readFails = False, writeResult = WriteOk\<rparr>,
         callUser = ''u2'', callText = ''Water boils'', callFeatures = [''summary''],
         callResults = [(''summary'', ''. [AI Enhanced Summary]'')],
         callInputType = ''text'', callFileName = None\<rparr>"
  have full: "persisted (Content (replicate 50 ?old)) = replicate 50 ?old"
    by (simp add: persisted_def readStudySessions_def)
  have new: "fst (createStudySession (callEnv ?c) (callUser ?c) (callText ?c) (callFeatures ?c)
                 (callResults ?c) (callInputType ?c) (callFileName ?c)
                 (Content (replicate 50 ?old)))
     = \<lparr>sid = ''1700000000000'', userId = ''u2'', originalText = ''Water boils'',
        fullTextLength = 11, results = [(''summary'', ''. [AI Enhanced Summary]'')],
        features = [''summary''], timestamp = ''2023-11-14T22:13:20.000Z'', wordCount = 2,
        inputType = ''text'', fileName = None\<rparr>"
    by code_simp
  have env: "writeResult (callEnv ?c) = WriteOk \<and> \<not> readFails (callEnv ?c)"
    by simp
  have cut: "take 49 (replicate 50 ?old) = replicate 49 ?old"
    by simp
  have within: "length (persisted (Content (replicate 50 ?old))) \<le> 50"
    by (simp add: persisted_def readStudySessions_def)
  have after: "length (persisted (fold appendSession [?c] (Content (replicate 50 ?old)))) \<le> 50"
    using session_store_cap [where disk = "Content (replicate 50 ?old)" and calls = "[?c]"] within
    by blast
  have "persisted (appendSession ?c (Content (replicate 50 ?old))) =
          fst (createStudySession (callEnv ?c) (callUser ?c) (callText ?c) (callFeatures ?c)
                 (callResults ?c) (callInputType ?c) (callFileName ?c)
                 (Content (replicate 50 ?old)))
          # take 49 (persisted (Content (replicate 50 ?old)))"
    using session_store_cap [where disk = "Content (replicate 50 ?old)" and c = ?c] env
    by blast
  then have front: "persisted (appendSession ?c (Content (replicate 50 ?old))) =
      \<lparr>sid = ''1700000000000'', userId = ''u2'', originalText = ''Water boils'',
        fullTextLength = 11, results = [(''summary'', ''. [AI Enhanced Summary]'')],
        features = [''summary''], timestamp = ''2023-11-14T22:13:20.000Z'', wordCount = 2,
        inputType = ''text'', fileName = None\<rparr>
       # replicate 49 ?old"
    by (simp only: new full cut)
  show ?thesis
    using within front after by blast
qed

section \<open>Properties of the remote inference adapter\<close>

lemma generateSmartSummary_not_empty: "generateSmartSummary text \<noteq> []"
  by (simp add: generateSmartSummary_def Let_def)

text \<open>
  Claim C8. When the remote call fails in one of the four ways (the request throws, the
  status is no success, the body is no JSON or carries an error, the output field is
  missing), \<open>generateSummary\<close> returns and does not throw, and what it returns is the
  heuristic summary of the text, which is never the empty string.
\<close>

theorem remote_failure_falls_back:
  "remoteFailed outcome \<Longrightarrow>
     generateSummary outcome text = Inr (JString (generateSmartSummary text))
     \<and> generateSmartSummary text \<noteq> []"
proof (cases outcome)
  case Rejected
  then show ?thesis
    by (simp add: generateSummary_def tryRemote_def generateSmartSummary_not_empty)
next
  case (Response status body)
  assume failed: "remoteFailed outcome"
  show ?thesis
  proof (cases body)
    case Malformed
    with Response show ?thesis
      by (simp add: generateSummary_def tryRemote_def generateSmartSummary_not_empty)
  next
    case (Parsed result)
    with Response failed
    have "status < 200 \<or> 299 < status \<or> hasError result \<or> missingOutput result"
      by (simp add: remoteFailed_def)
    with Response Parsed show ?thesis
      by (auto simp: generateSummary_def tryRemote_def generateSmartSummary_not_empty
          hasError_def missingOutput_def split: sum.splits option.splits)
  qed
qed

text \<open>
  The service answers 503 with an error payload: the caller gets the heuristic summary.
\<close>

theorem remote_failure_falls_back_witness:
  "remoteFailed (Response 503 (Parsed (JObject [(''error'', JString ''Service Unavailable'')])))
   \<and> generateSummary (Response 503 (Parsed (JObject [(''error'', JString ''Service Unavailable'')])))
        ''Machine learning is important. It uses algorithms. Neural networks are key.''
     = Inr (JString ''Machine learning is important. It uses algorithms. Neural networks are key. [AI Enhanced Summary]'')"
proof -
  have failed: "remoteFailed (Response 503 (Parsed (JObject [(''error'', JString ''Service Unavailable'')])))"
    by code_simp
  have summary: "generateSmartSummary ''Machine learning is important. It uses algorithms. Neural networks are key.''
     = ''Machine learning is important. It uses algorithms. Neural networks are key. [AI Enhanced Summary]''"
    by code_simp
  show ?thesis
    using failed summary
      remote_failure_falls_back [OF failed,
        of "''Machine learning is important. It uses algorithms. Neural networks are key.''"]
    by simp
qed

section \<open>Properties of numbers and sorting\<close>

lemma exponentOf_le:
  assumes "0 < a"
  shows "2 powi (exponentOf a) \<le> a"
proof -
  obtain p q where pq: "quotient_of a = (p, q)"
    by (cases "quotient_of a")
  have q: "0 < q" using pq quotient_of_denom_pos by blast
  have a: "a = of_int p / of_int q" using pq quotient_of_div by blast
  have p: "0 < p" using assms q a by (simp add: zero_less_divide_iff)
  define k where "k = bitlen p - bitlen q"
  have lo: "2 powi (k - 1) \<le> a"
  proof -
    have bp: "1 \<le> bitlen p" and bq: "1 \<le> bitlen q"
      using p q by (simp_all add: bitlen_alt_def)
    have "(2::int) ^ nat (bitlen p - 1) \<le> p" using bitlen_bounds [OF p] by blast
    then have "(of_int ((2::int) ^ nat (bitlen p - 1)) :: rat) \<le> of_int p"
      by (simp only: of_int_le_iff)
    then have 1: "(2::rat) powi (bitlen p - 1) \<le> of_int p"
      using bp by (simp add: power_int_def)
    have "q < (2::int) ^ nat (bitlen q)" using bitlen_bounds [OF q] by blast
    then have "(of_int q :: rat) < of_int ((2::int) ^ nat (bitlen q))"
      by (simp only: of_int_less_iff)
    then have 2: "(of_int q :: rat) \<le> 2 powi (bitlen q)"
      using bq by (simp add: power_int_def)
    have "(2::rat) powi (k - 1) = 2 powi (bitlen p - 1) / 2 powi (bitlen q)"
      unfolding k_def by (simp add: power_int_diff)
    also have "\<dots> \<le> of_int p / 2 powi (bitlen q)"
      using 1 by (simp add: divide_right_mono)
    also have "\<dots> \<le> of_int p / of_int q"
      using 2 p q by (simp add: divide_left_mono)
    finally show ?thesis using a by simp
  qed
  show ?thesis
    using lo pq by (simp add: exponentOf_def k_def Let_def)
qed

lemma fl_sign:
  assumes "x \<noteq> 0"
  shows "\<exists>c. 0 < c \<and> fl x = sgn x * c"
proof -
  define a where "a = \<bar>x\<bar>"
  define u :: rat where "u = 2 powi (exponentOf a - 52)"
  define q where "q = a / u"
  define n where "n = \<lfloor>q\<rfloor>"
  define m where "m = (if 1 / 2 < q - of_int n \<or> (q - of_int n = 1 / 2 \<and> odd n) then n + 1 else n)"
  have a: "0 < a" using assms by (simp add: a_def)
  have u: "0 < u" by (simp add: u_def)
  have "u = 2 powi (exponentOf a) / 2 powi 52"
    by (simp add: u_def power_int_diff)
  also have "\<dots> \<le> 2 powi (exponentOf a)"
    by (simp add: divide_le_eq)
  also have "\<dots> \<le> a" using exponentOf_le [OF a] .
  finally have "1 \<le> q" using u by (simp add: q_def le_divide_eq)
  then have "1 \<le> n" by (simp add: n_def)
  then have m: "0 < m" by (simp add: m_def)
  have "fl x = sgn x * (of_int m * u)"
    using assms by (simp add: fl_def Let_def a_def u_def q_def n_def m_def)
  moreover have "0 < of_int m * u" using m u by simp
  ultimately show ?thesis by blast
qed

lemma fl_pos_iff: "0 < fl x \<longleftrightarrow> 0 < x"
proof (cases "x = 0")
  case True
  then show ?thesis by (simp add: fl_def)
next
  case False
  then obtain c where c: "0 < c" "fl x = sgn x * c" using fl_sign by blast
  then show ?thesis using False
    by (cases "0 < x") (simp_all add: sgn_if zero_less_mult_iff mult_less_0_iff not_less)
qed

lemma placedAfter_subNum: "placedAfter (Num (subNum a b)) \<longleftrightarrow> b < a"
  by (simp add: placedAfter_def subNum_def fl_pos_iff)

lemma length_js_insert: "length (js_insert cmp x ys) = Suc (length ys)"
  by (induction ys) simp_all

lemma length_js_sort: "length (js_sort cmp xs) = length xs"
  by (induction xs) (simp_all add: js_sort_def length_js_insert)

lemma set_js_insert: "set (js_insert cmp x ys) = insert x (set ys)"
  by (induction ys) auto

lemma set_js_sort: "set (js_sort cmp xs) = set xs"
  by (induction xs) (simp_all add: js_sort_def set_js_insert)

text \<open>
  A comparator that agrees with a linear order on keys sorts like the stable sort by
  that key, also through a map from indices to items.
\<close>

lemma js_insert_map:
  assumes "\<And>i j. placedAfter (cmp (f i) (f j)) \<longleftrightarrow> key j < key i"
  shows "js_insert cmp (f i) (map f js) = map f (insort_key key i js)"
  using assms by (induction js) (auto simp: not_less)

lemma js_sort_map:
  assumes "\<And>i j. placedAfter (cmp (f i) (f j)) \<longleftrightarrow> key j < (key i :: 'k :: linorder)"
  shows "js_sort cmp (map f is) = map f (sort_key key is)"
proof (induction "is")
  case Nil
  then show ?case by (simp add: js_sort_def)
next
  case (Cons i "is")
  have "js_sort cmp (map f (i # is)) = js_insert cmp (f i) (js_sort cmp (map f is))"
    by (simp add: js_sort_def)
  also have "\<dots> = js_insert cmp (f i) (map f (sort_key key is))"
    by (simp only: Cons.IH)
  also have "\<dots> = map f (insort_key key i (sort_key key is))"
    using assms by (rule js_insert_map)
  finally show ?case by simp
qed

lemma map_withIndex: "map f (withIndex xs) = map (\<lambda>i. f (xs ! i, i)) [0..<length xs]"
  by (rule nth_equalityI) (simp_all add: withIndex_def)

section \<open>Properties of the text heuristics engine\<close>

lemma summaryCompare_key:
  "placedAfter (summaryCompare a b) \<longleftrightarrow>
     (\<not> hasKeywords b, - int (length' b), position b)
       < (\<not> hasKeywords a, - int (length' a), position a)"
proof -
  have minus: "\<not> placedAfter (Num (- 1))" and plus: "placedAfter (Num 1)"
    by (simp_all add: placedAfter_def)
  show ?thesis
    by (auto simp: summaryCompare_def placedAfter_subNum minus plus)
qed

lemma positionCompare_key: "placedAfter (positionCompare a b) \<longleftrightarrow> position b < position a"
  by (simp add: positionCompare_def placedAfter_subNum)

text \<open>
  What \<open>generateSmartSummary\<close> computes, in closed form: the comparator of the source is
  the lexicographic order (keyword first, longer piece, earlier position) and the two
  \<open>sort\<close> calls are stable sorts by it and by position; but the length compared is that of
  the piece as split, the blank after the previous terminator included, while the piece
  kept and the length filtered on are trimmed.
\<close>

lemma generateSmartSummary_as_coded:
  "generateSmartSummary text =
     (let kept = filter (\<lambda>s. 10 < length (trim s)) (splitSentences text);
          ranked = sort_key
            (\<lambda>i. (\<not> hasImportantKeywords (kept ! i), - int (length (kept ! i)), i))
            [0..<length kept];
          restored = sort (take 4 ranked)
      in join ''. '' (map (\<lambda>i. trim (kept ! i)) restored) @ ''.'' @ '' [AI Enhanced Summary]'')"
proof -
  define kept where "kept = filter (\<lambda>s. 10 < length (trim s)) (splitSentences text)"
  define mk where "mk = (\<lambda>i.
     \<lparr>sentence = trim (kept ! i), position = i, length' = length (kept ! i),
      hasKeywords = hasImportantKeywords (kept ! i)\<rparr>)"
  define key where "key = (\<lambda>i.
     (\<not> hasImportantKeywords (kept ! i), - int (length (kept ! i)), i))"
  have items: "summaryItems text = map mk [0..<length kept]"
    by (simp add: summaryItems_def kept_def [symmetric] map_withIndex mk_def)
  have rank: "js_sort summaryCompare (map mk js) = map mk (sort_key key js)" for js
    by (rule js_sort_map) (simp add: summaryCompare_key mk_def key_def)
  have restore: "js_sort positionCompare (map mk js) = map mk (sort_key (\<lambda>i. i) js)" for js
    by (rule js_sort_map) (simp add: positionCompare_key mk_def)
  have sentences: "map sentence (map mk js) = map (\<lambda>i. trim (kept ! i)) js" for js
    by (simp add: mk_def)
  have "js_sort positionCompare (take 4 (js_sort summaryCompare (summaryItems text)))
        = map mk (sort (take 4 (sort_key key [0..<length kept])))"
    by (simp only: items rank take_map restore)
  then have "map sentence
          (js_sort positionCompare (take 4 (js_sort summaryCompare (summaryItems text))))
        = map (\<lambda>i. trim (kept ! i)) (sort (take 4 (sort_key key [0..<length kept])))"
    by (simp only: sentences)
  then show ?thesis
    by (simp add: generateSmartSummary_def kept_def [symmetric]
        key_def [symmetric])
qed

text \<open>
  Claim C3 fails on the code. The text below has five sentences of 15 characters each,
  none with a keyword, so the order the claim gives (keyword first, then longer, then
  earlier) keeps the first four. The source ranks by the length of the piece before
  trimming: every piece but the first starts with the blank that follows the previous
  period and counts as 16 characters long, so the first sentence is ranked last and it is
  the one dropped. The comment in the source reads \<open>Prioritize sentences with keywords,
  then longer sentences, then earlier positions\<close>.
\<close>

theorem summary_rank_counts_leading_blank:
  "generateSmartSummary
     ''Cats purr a lot. Dogs bark a lot. Birds fly a lot. Fish swim a lot. Cows chew a lot.''
     = ''Dogs bark a lot. Birds fly a lot. Fish swim a lot. Cows chew a lot. [AI Enhanced Summary]''
   \<and> summaryClaimed
     ''Cats purr a lot. Dogs bark a lot. Birds fly a lot. Fish swim a lot. Cows chew a lot.''
     = ''Cats purr a lot. Dogs bark a lot. Birds fly a lot. Fish swim a lot. [AI Enhanced Summary]''"
  by code_simp

text \<open>
  Rounding moves a number by at most half a unit in the last place: a relative error of
  at most \<open>2^-53\<close>.
\<close>

lemma fl_error: "\<bar>fl x - x\<bar> \<le> \<bar>x\<bar> / 2 ^ 53"
proof (cases "x = 0")
  case True
  then show ?thesis by (simp add: fl_def)
next
  case False
  define a where "a = \<bar>x\<bar>"
  define u :: rat where "u = 2 powi (exponentOf a - 52)"
  define q where "q = a / u"
  define n where "n = \<lfloor>q\<rfloor>"
  define m where "m = (if 1 / 2 < q - of_int n \<or> (q - of_int n = 1 / 2 \<and> odd n) then n + 1 else n)"
  have a: "0 < a" using False by (simp add: a_def)
  have u: "0 < u" by (simp add: u_def)
  have "u / 2 = 2 powi (exponentOf a) / 2 ^ 53"
    by (simp add: u_def power_int_diff)
  also have "\<dots> \<le> a / 2 ^ 53"
    using exponentOf_le [OF a] by (simp add: divide_right_mono)
  finally have ulp: "u / 2 \<le> a / 2 ^ 53" .
  have lower: "of_int n \<le> q" and upper: "q < of_int n + 1"
    unfolding n_def by linarith+
  have near: "\<bar>of_int m - q\<bar> \<le> 1 / 2"
    using lower upper unfolding m_def by (auto simp: abs_if)
  have rounded: "fl x = sgn x * (of_int m * u)"
    using False by (simp add: fl_def Let_def a_def u_def q_def n_def m_def)
  have "q * u = \<bar>x\<bar>" using u by (simp add: q_def a_def)
  then have "x = sgn x * (q * u)"
    by (simp only: sgn_mult_abs)
  then have "fl x - x = sgn x * ((of_int m - q) * u)"
    using rounded by (simp add: algebra_simps)
  then have "\<bar>fl x - x\<bar> = \<bar>of_int m - q\<bar> * u"
    using False u by (simp add: abs_mult abs_sgn_eq)
  also have "\<dots> \<le> 1 / 2 * u"
    using near u by (intro mult_right_mono) simp_all
  also have "\<dots> \<le> a / 2 ^ 53" using ulp by simp
  finally show ?thesis by (simp add: a_def)
qed

lemma fl_near:
  assumes "\<bar>x\<bar> \<le> b"
  shows "\<bar>fl x - x\<bar> \<le> b / 2 ^ 53"
proof -
  have "\<bar>x\<bar> / 2 ^ 53 \<le> b / 2 ^ 53"
    using assms by (simp add: divide_right_mono)
  then show ?thesis using fl_error [of x] by linarith
qed

lemma fl_nonpos: "x \<le> 0 \<Longrightarrow> fl x \<le> 0"
  using fl_pos_iff [of x] by simp

text \<open>
  The score the source computes in binary64 arithmetic is, up to rounding, the formula
  \<open>min(length / 50, 3) + 2 [keyword] + 2 [definition] + max(0, (10 - position) / 5)\<close>
  applied to the piece as split (not trimmed): the two differ by less than \<open>2^-47\<close>.
\<close>

lemma sentenceScore_near:
  "sentenceScore s index \<le> scoreClaimed s index + 1 / 2 ^ 47
   \<and> scoreClaimed s index \<le> sentenceScore s index + 1 / 2 ^ 47"
proof -
  define d :: rat where "d = 1 / 2 ^ 53"
  have d: "0 < d" "d \<le> 1 / 1000" by (simp_all add: d_def)
  have near: "fl x \<le> x + b * d \<and> x \<le> fl x + b * d" if "- b \<le> x" "x \<le> b" for x b
  proof -
    have "\<bar>x\<bar> \<le> b" using that by linarith
    then have "\<bar>fl x - x\<bar> \<le> b * d" using fl_near [of x b] by (simp add: d_def)
    then show ?thesis by linarith
  qed
  define len :: rat where "len = of_nat (length s) / 50"
  define exact1 where "exact1 = min len 3"
  define part1 where "part1 = min (fl len) 3"
  define score0 where "score0 = fl part1"
  define kw :: rat where "kw = (if hasImportantKeywords s then 2 else 0)"
  define score1 where "score1 = (if hasImportantKeywords s then fl (score0 + 2) else score0)"
  define df :: rat where "df = (if isDefinition s then 2 else 0)"
  define score2 where "score2 = (if isDefinition s then fl (score1 + 2) else score1)"
  define x :: rat where "x = 10 - of_nat index"
  define exact4 where "exact4 = max 0 (x / 5)"
  define pos where "pos = max 0 (fl (fl x / 5))"
  have len: "0 \<le> len" by (simp add: len_def)
  have small: "len * d \<le> len / 1000"
    using mult_left_mono [OF d(2) len] by simp
  have rel: "fl len \<le> len + len * d" "len \<le> fl len + len * d"
    using near [where b = len and x = len] len by simp_all
  have part1: "part1 \<le> exact1 + 4 * d \<and> exact1 \<le> part1 + 4 * d"
  proof (cases "len \<le> 4")
    case True
    then have "len * d \<le> 4 * d" using d by (simp add: mult_right_mono)
    then have "fl len \<le> len + 4 * d" "len \<le> fl len + 4 * d" using rel by linarith+
    then show ?thesis unfolding part1_def exact1_def by linarith
  next
    case False
    then have "3 \<le> fl len" using rel small by linarith
    then show ?thesis using False d unfolding part1_def exact1_def by simp
  qed
  have part1_lo: "0 \<le> part1" and part1_hi: "part1 \<le> 3"
  proof -
    have "0 \<le> fl len" using rel small len by linarith
    then show "0 \<le> part1" by (simp add: part1_def)
    show "part1 \<le> 3" by (simp add: part1_def)
  qed
  have score0: "score0 \<le> part1 + 3 * d \<and> part1 \<le> score0 + 3 * d"
    unfolding score0_def using near [where b = 3 and x = part1] part1_lo part1_hi by simp
  have kw: "0 \<le> kw" "kw \<le> 2" and df: "0 \<le> df" "df \<le> 2"
    by (simp_all add: kw_def df_def)
  have score0_range: "0 \<le> score0 + 1" "score0 \<le> 4"
    using score0 part1_lo part1_hi d by linarith+
  have score1: "score1 \<le> score0 + kw + 6 * d \<and> score0 + kw \<le> score1 + 6 * d"
  proof (cases "hasImportantKeywords s")
    case True
    then show ?thesis using near [where b = 6 and x = "score0 + 2"] score0_range
      by (simp add: score1_def kw_def)
  next
    case False
    then show ?thesis using d by (simp add: score1_def kw_def)
  qed
  have score1_range: "0 \<le> score1 + 2" "score1 \<le> 6"
    using score1 score0 part1_lo part1_hi kw d by linarith+
  have score2: "score2 \<le> score1 + df + 8 * d \<and> score1 + df \<le> score2 + 8 * d"
  proof (cases "isDefinition s")
    case True
    then show ?thesis using near [where b = 8 and x = "score1 + 2"] score1_range
      by (simp add: score2_def df_def)
  next
    case False
    then show ?thesis using d by (simp add: score2_def df_def)
  qed
  have score2_range: "0 \<le> score2 + 3" "score2 \<le> 8"
    using score2 score1 score0 part1_lo part1_hi kw df d by linarith+
  have pos_lo: "0 \<le> pos" by (simp add: pos_def)
  have pos: "pos \<le> exact4 + 5 * d \<and> exact4 \<le> pos + 5 * d \<and> pos \<le> 3"
  proof (cases "x \<le> 0")
    case True
    then have "fl x \<le> 0" by (rule fl_nonpos)
    then have "fl (fl x / 5) \<le> 0" by (intro fl_nonpos) simp
    then have "pos = 0" by (simp add: pos_def)
    moreover have "exact4 = 0" using True by (simp add: exact4_def)
    ultimately show ?thesis using d by simp
  next
    case False
    then have x: "0 < x" "x \<le> 10" by (simp_all add: x_def)
    have y: "fl x \<le> x + 10 * d" "x \<le> fl x + 10 * d" using near [where b = 10 and x = x] x by simp_all
    then have "- 3 \<le> fl x / 5" "fl x / 5 \<le> 3" using x d by linarith+
    then have z: "fl (fl x / 5) \<le> fl x / 5 + 3 * d" "fl x / 5 \<le> fl (fl x / 5) + 3 * d"
      using near [where b = 3 and x = "fl x / 5"] by simp_all
    have w: "fl (fl x / 5) \<le> x / 5 + 5 * d" "x / 5 \<le> fl (fl x / 5) + 5 * d"
      using y z by linarith+
    have "exact4 = x / 5" using x by (simp add: exact4_def)
    moreover have "pos = fl (fl x / 5) \<or> pos = 0" by (auto simp: pos_def max_def)
    moreover have "fl (fl x / 5) \<le> pos" by (simp add: pos_def)
    ultimately show ?thesis using w x d by auto
  qed
  have "- 11 \<le> score2 + pos" "score2 + pos \<le> 11"
    using score2_range pos pos_lo by linarith+
  then have final: "fl (score2 + pos) \<le> score2 + pos + 11 * d"
      "score2 + pos \<le> fl (score2 + pos) + 11 * d"
    using near [where b = 11 and x = "score2 + pos"] by simp_all
  have code: "sentenceScore s index = fl (score2 + pos)"
    by (simp add: sentenceScore_def Let_def addNum_def subNum_def divNum_def score2_def
        score1_def score0_def part1_def len_def pos_def x_def)
  have claimed: "scoreClaimed s index = exact1 + kw + df + exact4"
    by (simp add: scoreClaimed_def len_def kw_def df_def x_def exact1_def exact4_def)
  have bound: "37 * d \<le> 1 / 2 ^ 47" by (simp add: d_def)
  have "fl (score2 + pos) \<le> exact1 + kw + df + exact4 + 37 * d"
    using final score2 score1 score0 part1 pos by linarith
  moreover have "exact1 + kw + df + exact4 \<le> fl (score2 + pos) + 37 * d"
    using final score2 score1 score0 part1 pos by linarith
  ultimately show ?thesis
    unfolding code claimed using bound by linarith
qed

lemma splitRuns_pieces:
  "piece \<in> set (splitRuns sep s) \<Longrightarrow> c \<in> set piece \<Longrightarrow> \<not> sep c"
proof (induction sep s rule: splitRuns.induct)
  case (1 sep s)
  have unfolded: "splitRuns sep s =
      (if dropWhile (\<lambda>c. \<not> sep c) s = [] then [takeWhile (\<lambda>c. \<not> sep c) s]
       else takeWhile (\<lambda>c. \<not> sep c) s
            # splitRuns sep (dropWhile sep (dropWhile (\<lambda>c. \<not> sep c) s)))"
    by (subst splitRuns.simps) (simp only: Let_def)
  have first: "\<not> sep c" if "c \<in> set (takeWhile (\<lambda>c. \<not> sep c) s)"
    using that by (auto dest: set_takeWhileD)
  show ?case
  proof (cases "dropWhile (\<lambda>c. \<not> sep c) s = []")
    case True
    then have "piece = takeWhile (\<lambda>c. \<not> sep c) s"
      using "1.prems"(1) unfolding unfolded by (simp only: if_True set_simps) simp
    then show ?thesis using "1.prems"(2) first by blast
  next
    case False
    then have "piece = takeWhile (\<lambda>c. \<not> sep c) s
        \<or> piece \<in> set (splitRuns sep (dropWhile sep (dropWhile (\<lambda>c. \<not> sep c) s)))"
      using "1.prems"(1) unfolding unfolded by (simp only: if_False set_simps) simp
    then show ?thesis
    proof
      assume "piece = takeWhile (\<lambda>c. \<not> sep c) s"
      then show ?thesis using "1.prems"(2) first by blast
    next
      assume "piece \<in> set (splitRuns sep (dropWhile sep (dropWhile (\<lambda>c. \<not> sep c) s)))"
      then show ?thesis
        using "1.IH" [OF refl refl False] "1.prems"(2) by blast
    qed
  qed
qed

lemma trim_subset: "set (trim s) \<subseteq> set s"
proof -
  have "set (trim s) \<subseteq> set (rev (dropWhile isWhiteSpace s))"
    unfolding trim_def by (auto dest: set_dropWhileD)
  also have "\<dots> \<subseteq> set s" by (auto dest: set_dropWhileD)
  finally show ?thesis .
qed

lemma sentence_never_ends_with_period:
  assumes "s \<in> set (splitSentences text)"
  shows "\<not> endsWith (trim s) ''.''"
proof
  assume "endsWith (trim s) ''.''"
  then obtain front where "trim s = front @ ''.''"
    by (auto simp: endsWith_def suffix_def)
  then have "CHR ''.'' \<in> set (trim s)" by simp
  then have "CHR ''.'' \<in> set s" using trim_subset by blast
  then have "\<not> isSentenceEnd CHR ''.''"
    using assms splitRuns_pieces unfolding splitSentences_def by blast
  then show False by (simp add: isSentenceEnd_def)
qed

lemma scoreCompare_key: "placedAfter (scoreCompare a b) \<longleftrightarrow> - score b < - score a"
  by (simp add: scoreCompare_def placedAfter_subNum)

text \<open>
  What \<open>extractSmartKeyPoints\<close> computes, in closed form: the pieces whose trimmed length
  exceeds 15 are ranked by a stable sort on their score, the first five are put back in
  position order, trimmed, closed with a period (a piece never contains one) and numbered
  from 1. The score is that of the piece as split.
\<close>

lemma extractSmartKeyPoints_as_coded:
  "extractSmartKeyPoints text =
     (let kept = keyPointSentences text;
          ranked = sort_key (\<lambda>i. - sentenceScore (kept ! i) i) [0..<length kept];
          restored = sort (take 5 ranked)
      in map (\<lambda>(i, index). \<lparr>id' = index + 1, point = trim (kept ! i) @ ''.''\<rparr>)
             (withIndex restored))"
proof -
  define kept where "kept = keyPointSentences text"
  define n where "n = length kept"
  define mk where "mk = (\<lambda>i.
     \<lparr>sentence = trim (kept ! i), position = i, score = sentenceScore (kept ! i) i\<rparr>)"
  define key where "key = (\<lambda>i. - sentenceScore (kept ! i) i)"
  define ps where "ps = sort (take 5 (sort_key key [0..<n]))"
  have items: "scoredSentences text = map mk [0..<n]"
    by (simp add: scoredSentences_def kept_def [symmetric] map_withIndex mk_def n_def)
  have rank: "js_sort scoreCompare (map mk js) = map mk (sort_key key js)" for js
    by (rule js_sort_map) (simp add: scoreCompare_key mk_def key_def)
  have restore: "js_sort positionCompare (map mk js) = map mk (sort_key (\<lambda>i. i) js)" for js
    by (rule js_sort_map) (simp add: positionCompare_key mk_def)
  have selected: "topSentences text = map mk ps"
    unfolding topSentences_def ps_def by (simp only: items rank take_map restore)
  have "set ps \<subseteq> set (sort_key key [0..<n])"
    unfolding ps_def using set_take_subset [of 5 "sort_key key [0..<n]"] by simp
  then have inside: "p < n" if "p \<in> set ps" for p
    using that by auto
  have period: "sentence (mk p) @ (if endsWith (sentence (mk p)) ''.'' then [] else ''.'')
      = trim (kept ! p) @ ''.''" if "p \<in> set ps" for p
  proof -
    have "p < length kept" using that inside by (simp add: n_def)
    then have "kept ! p \<in> set (splitSentences text)"
      using nth_mem [of p kept] by (auto simp: kept_def keyPointSentences_def)
    then show ?thesis
      using sentence_never_ends_with_period by (simp add: mk_def)
  qed
  have "extractSmartKeyPoints text =
      map (\<lambda>(item, index).
             \<lparr>id' = index + 1,
              point = sentence item @ (if endsWith (sentence item) ''.'' then [] else ''.'')\<rparr>)
          (withIndex (map mk ps))"
    by (simp only: extractSmartKeyPoints_def selected)
  also have "\<dots> = map (\<lambda>(p, index). \<lparr>id' = index + 1, point = trim (kept ! p) @ ''.''\<rparr>)
                     (withIndex ps)"
  proof (rule nth_equalityI)
    show "length (map (\<lambda>(item, index).
             \<lparr>id' = index + 1,
              point = sentence item @ (if endsWith (sentence item) ''.'' then [] else ''.'')\<rparr>)
          (withIndex (map mk ps)))
       = length (map (\<lambda>(p, index). \<lparr>id' = index + 1, point = trim (kept ! p) @ ''.''\<rparr>)
                     (withIndex ps))"
      by (simp add: withIndex_def)
  next
    fix i
    assume "i < length (map (\<lambda>(item, index).
             \<lparr>id' = index + 1,
              point = sentence item @ (if endsWith (sentence item) ''.'' then [] else ''.'')\<rparr>)
          (withIndex (map mk ps)))"
    then have i: "i < length ps" by (simp add: withIndex_def)
    then have "ps ! i \<in> set ps" by simp
    then show "map (\<lambda>(item, index).
             \<lparr>id' = index + 1,
              point = sentence item @ (if endsWith (sentence item) ''.'' then [] else ''.'')\<rparr>)
          (withIndex (map mk ps)) ! i
       = map (\<lambda>(p, index). \<lparr>id' = index + 1, point = trim (kept ! p) @ ''.''\<rparr>)
             (withIndex ps) ! i"
      using i period [of "ps ! i"] by (simp add: withIndex_def)
  qed
  finally show ?thesis
    by (simp add: Let_def kept_def ps_def key_def n_def)
qed

lemma sentenceScore_between:
  assumes "scoreClaimed s index = e"
  shows "e - 1 / 1000 \<le> sentenceScore s index \<and> sentenceScore s index \<le> e + 1 / 1000"
proof -
  have "(1::rat) / 2 ^ 47 \<le> 1 / 1000" by simp
  then show ?thesis
    using sentenceScore_near [of s index] assms by linarith
qed

text \<open>
  Claim C4 fails on the code. In the text below the sentences are separated by two
  blanks. By the formula of the claim the first sentence (16 characters, position 0) scores
  \<open>16/50 + 2 = 2.32\<close> and the last (65 characters, position 5) \<open>65/50 + 1 = 2.30\<close>; the four
  in between carry a keyword and score above 3, so the top five leave the last sentence
  out. The source scores the piece before trimming: the last piece counts its two leading
  blanks, scores \<open>67/50 + 1 = 2.34\<close> and takes the place of the first sentence.
\<close>

theorem keyPoints_score_counts_leading_blanks:
  "extractSmartKeyPoints
     ''Cats sleep a lot.  Dogs are the main pets.  Fish are a major catch.  Cows are a primary farm animal.  Bees are essential insects.  Birds travel very far every single autumn and come back in spring.''
     = [\<lparr>id' = 1, point = ''Dogs are the main pets.''\<rparr>,
        \<lparr>id' = 2, point = ''Fish are a major catch.''\<rparr>,
        \<lparr>id' = 3, point = ''Cows are a primary farm animal.''\<rparr>,
        \<lparr>id' = 4, point = ''Bees are essential insects.''\<rparr>,
        \<lparr>id' = 5, point = ''Birds travel very far every single autumn and come back in spring.''\<rparr>]
   \<and> keyPointsClaimed
     ''Cats sleep a lot.  Dogs are the main pets.  Fish are a major catch.  Cows are a primary farm animal.  Bees are essential insects.  Birds travel very far every single autumn and come back in spring.''
     = [\<lparr>id' = 1, point = ''Cats sleep a lot.''\<rparr>,
        \<lparr>id' = 2, point = ''Dogs are the main pets.''\<rparr>,
        \<lparr>id' = 3, point = ''Fish are a major catch.''\<rparr>,
        \<lparr>id' = 4, point = ''Cows are a primary farm animal.''\<rparr>,
        \<lparr>id' = 5, point = ''Bees are essential insects.''\<rparr>]"
proof -
  define kept where "kept =
     [''Cats sleep a lot'',
      ''  Dogs are the main pets'',
      ''  Fish are a major catch'',
      ''  Cows are a primary farm animal'',
      ''  Bees are essential insects'',
      ''  Birds travel very far every single autumn and come back in spring'']"
  define f where "f = (\<lambda>i. - sentenceScore (kept ! i) i)"
  have pieces: "keyPointSentences
     ''Cats sleep a lot.  Dogs are the main pets.  Fish are a major catch.  Cows are a primary farm animal.  Bees are essential insects.  Birds travel very far every single autumn and come back in spring.'' = kept"
    unfolding kept_def by code_simp
  have exact0: "scoreClaimed ''Cats sleep a lot'' 0 = 58 / 25"
    by code_simp
  have exact1: "scoreClaimed ''  Dogs are the main pets'' 1 = 107 / 25"
    by code_simp
  have exact2: "scoreClaimed ''  Fish are a major catch'' 2 = 102 / 25"
    by code_simp
  have exact3: "scoreClaimed ''  Cows are a primary farm animal'' 3 = 101 / 25"
    by code_simp
  have exact4: "scoreClaimed ''  Bees are essential insects'' 4 = 94 / 25"
    by code_simp
  have exact5: "scoreClaimed ''  Birds travel very far every single autumn and come back in spring'' 5 = 117 / 50"
    by code_simp
  have f0: "f 0 = - sentenceScore ''Cats sleep a lot'' 0"
    and f1: "f 1 = - sentenceScore ''  Dogs are the main pets'' 1"
    and f2: "f 2 = - sentenceScore ''  Fish are a major catch'' 2"
    and f3: "f 3 = - sentenceScore ''  Cows are a primary farm animal'' 3"
    and f4: "f 4 = - sentenceScore ''  Bees are essential insects'' 4"
    and f5: "f 5 = - sentenceScore ''  Birds travel very far every single autumn and come back in spring'' 5"
    by (simp_all add: f_def kept_def)
  have chain: "f 1 < f 2" "f 2 < f 3" "f 3 < f 4" "f 4 < f 5" "f 5 < f 0"
    unfolding f0 f1 f2 f3 f4 f5
    using sentenceScore_between [OF exact0] sentenceScore_between [OF exact1]
      sentenceScore_between [OF exact2] sentenceScore_between [OF exact3]
      sentenceScore_between [OF exact4] sentenceScore_between [OF exact5]
    by linarith+
  have decisions: "(f 4 \<le> f 5) = True" "(f 3 \<le> f 4) = True" "(f 2 \<le> f 3) = True"
    "(f 1 \<le> f 2) = True" "(f 0 \<le> f 1) = False" "(f 0 \<le> f 2) = False"
    "(f 0 \<le> f 3) = False" "(f 0 \<le> f 4) = False" "(f 0 \<le> f 5) = False"
    using chain by simp_all
  have positions: "[0..<length kept] = [0, 1, 2, 3, 4, 5]"
    unfolding kept_def by code_simp
  have ranked: "sort_key f [0, 1, 2, 3, 4, 5] = [1, 2, 3, 4, 5, 0]"
    by (simp only: sort_key_simps insort_key.simps decisions if_True if_False)
  have restored: "sort (take 5 [1, 2, 3, 4, 5, 0::nat]) = [1, 2, 3, 4, 5]"
    by code_simp
  have coded: "extractSmartKeyPoints
     ''Cats sleep a lot.  Dogs are the main pets.  Fish are a major catch.  Cows are a primary farm animal.  Bees are essential insects.  Birds travel very far every single autumn and come back in spring.''
     = map (\<lambda>(i, index). \<lparr>id' = index + 1, point = trim (kept ! i) @ ''.''\<rparr>)
           (withIndex [1, 2, 3, 4, 5])"
    unfolding extractSmartKeyPoints_as_coded pieces Let_def f_def [symmetric] positions ranked
      restored
    by (rule refl)
  have shown: "map (\<lambda>(i, index). \<lparr>id' = index + 1, point = trim (
     [''Cats sleep a lot'',
      ''  Dogs are the main pets'',
      ''  Fish are a major catch'',
      ''  Cows are a primary farm animal'',
      ''  Bees are essential insects'',
      ''  Birds travel very far every single autumn and come back in spring''] ! i) @ ''.''\<rparr>)
           (withIndex [1, 2, 3, 4, 5])
     = [\<lparr>id' = 1, point = ''Dogs are the main pets.''\<rparr>,
        \<lparr>id' = 2, point = ''Fish are a major catch.''\<rparr>,
        \<lparr>id' = 3, point = ''Cows are a primary farm animal.''\<rparr>,
        \<lparr>id' = 4, point = ''Bees are essential insects.''\<rparr>,
        \<lparr>id' = 5, point = ''Birds travel very far every single autumn and come back in spring.''\<rparr>]"
    by code_simp
  have claimed: "keyPointsClaimed
     ''Cats sleep a lot.  Dogs are the main pets.  Fish are a major catch.  Cows are a primary farm animal.  Bees are essential insects.  Birds travel very far every single autumn and come back in spring.''
     = [\<lparr>id' = 1, point = ''Cats sleep a lot.''\<rparr>,
        \<lparr>id' = 2, point = ''Dogs are the main pets.''\<rparr>,
        \<lparr>id' = 3, point = ''Fish are a major catch.''\<rparr>,
        \<lparr>id' = 4, point = ''Cows are a primary farm animal.''\<rparr>,
        \<lparr>id' = 5, point = ''Bees are essential insects.''\<rparr>]"
    by code_simp
  show ?thesis
    using coded shown claimed unfolding kept_def by simp
qed

lemma set_firstSeen: "set (firstSeen ws) = set ws"
  by (simp add: firstSeen_def)

lemma firstSeen_snoc:
  "firstSeen (ws @ [w]) = (if w \<in> set ws then firstSeen ws else firstSeen ws @ [w])"
  by (simp add: firstSeen_def)

lemma newSet_firstSeen: "newSet ws = firstSeen ws"
proof (induction ws rule: rev_induct)
  case Nil
  then show ?case by (simp add: newSet_def firstSeen_def)
next
  case (snoc w ws)
  have "newSet (ws @ [w]) = addToSet (newSet ws) w"
    by (simp add: newSet_def)
  also have "\<dots> = addToSet (firstSeen ws) w"
    by (simp only: snoc.IH)
  also have "\<dots> = firstSeen (ws @ [w])"
    by (simp add: addToSet_def firstSeen_snoc set_firstSeen)
  finally show ?case .
qed

text \<open>
  Claim C5, as amended. Key-term extraction takes the whitespace tokens longer than 6
  characters, deduplicates them in first-seen order, keeps the first 8 of the distinct
  tokens, drops the stopwords and the tokens that are not purely alphabetic among these 8,
  and returns the first 4 that remain; when fewer than 4 of the 8 remain it returns
  \<open>Concept\<close>, \<open>Theory\<close>, \<open>Application\<close>, \<open>Method\<close>.
\<close>

theorem extractKeyTerms_first_eight: "extractKeyTerms text = keyTermsAmended text"
proof -
  have same_filter: "qualifies =
      (\<lambda>word. toLowerCase word
                 \<notin> set [''however'', ''although'', ''because'', ''therefore'', ''additionally'']
               \<and> isAlphabetic word)"
    by (rule ext) (simp add: qualifies_def)
  have generic: "take 4 [''Concept'', ''Theory'', ''Application'', ''Method'', ''Principle'',
                          ''Analysis''] = genericTerms"
    by (simp add: genericTerms_def)
  show ?thesis
    unfolding extractKeyTerms_def keyTermsAmended_def Let_def newSet_firstSeen same_filter generic
    by (rule refl)
qed

text \<open>
  Eight distinct long tokens that end in a comma come first, four clean ones follow: the
  code never looks at the clean ones and returns the generic terms.
\<close>

theorem extractKeyTerms_first_eight_witness:
  "extractKeyTerms
     ''Photosynthesis, respiration, fermentation, metabolism, digestion, circulation, absorption, excretion, converts sunlight through chlorophyll''
   = [''Concept'', ''Theory'', ''Application'', ''Method'']"
proof -
  have "keyTermsAmended
     ''Photosynthesis, respiration, fermentation, metabolism, digestion, circulation, absorption, excretion, converts sunlight through chlorophyll''
   = [''Concept'', ''Theory'', ''Application'', ''Method'']"
    by code_simp
  then show ?thesis
    using extractKeyTerms_first_eight
      [of "''Photosynthesis, respiration, fermentation, metabolism, digestion, circulation, absorption, excretion, converts sunlight through chlorophyll''"]
    by simp
qed

text \<open>
  On that text the claim as first stated promises the first four qualifying terms, since
  four tokens qualify; the code returns the generic terms instead.
\<close>

theorem extractKeyTerms_counterexample:
  "keyTermsClaimed
     ''Photosynthesis, respiration, fermentation, metabolism, digestion, circulation, absorption, excretion, converts sunlight through chlorophyll''
     = [''converts'', ''sunlight'', ''through'', ''chlorophyll'']
   \<and> extractKeyTerms
     ''Photosynthesis, respiration, fermentation, metabolism, digestion, circulation, absorption, excretion, converts sunlight through chlorophyll''
     = [''Concept'', ''Theory'', ''Application'', ''Method'']"
  by code_simp

lemma padQuestions_replicate:
  "padQuestions questions = questions @ replicate (2 - length questions) genericQuestion"
proof (induction questions rule: padQuestions.induct)
  case (1 questions)
  show ?case
  proof (cases "length questions < 2")
    case True
    then have "2 - length questions = Suc (2 - length (questions @ [genericQuestion]))"
      by simp
    then show ?thesis
      using "1.IH" [OF True] True
      by (subst padQuestions.simps) (simp add: replicate_app_Cons_same)
  next
    case False
    then show ?thesis by (subst padQuestions.simps) simp
  qed
qed

lemma question_shapes:
  "length (options (topicQuestion mainTopic)) = 4" "correct (topicQuestion mainTopic) = 0"
  "length (options (conceptQuestion keyTerm)) = 4" "correct (conceptQuestion keyTerm) = 0"
  "length (options processQuestion) = 4" "correct processQuestion = 0"
  "length (options genericQuestion) = 4" "correct genericQuestion = 0"
  by (simp_all add: topicQuestion_def conceptQuestion_def processQuestion_def
      genericQuestion_def)

lemma buildQuiz_kinds:
  assumes "q \<in> set (buildQuiz mainTopic keyTerms process)"
  shows "q = topicQuestion mainTopic \<or> (\<exists>keyTerm. q = conceptQuestion keyTerm)
         \<or> q = processQuestion \<or> q = genericQuestion"
proof -
  from assms have "q \<in> set (padQuestions
      ((if process then (\<lambda>qs. qs @ [processQuestion]) else (\<lambda>qs. qs))
        (case keyTerms of
           [] \<Rightarrow> (if mainTopic \<noteq> [] then [topicQuestion mainTopic] else [])
         | keyTerm # rest \<Rightarrow> (if mainTopic \<noteq> [] then [topicQuestion mainTopic] else [])
                              @ [conceptQuestion keyTerm])))"
    by (auto simp: buildQuiz_def Let_def dest: in_set_takeD split: if_splits)
  then show ?thesis
    by (auto simp: padQuestions_replicate split: if_splits list.splits)
qed

lemma buildQuiz_shape:
  assumes "q \<in> set (buildQuiz mainTopic keyTerms process)"
  shows "length (options q) = 4 \<and> correct q = 0"
  using buildQuiz_kinds [OF assms] by (auto simp: question_shapes)

lemma extractKeyTerms_length: "length (extractKeyTerms text) = 4"
  by (simp add: extractKeyTerms_def Let_def)

lemma extractMainTopic_not_empty: "extractMainTopic rt text \<noteq> []"
  by (simp add: extractMainTopic_def Let_def capitalizeFirstLetter_def
      split: list.splits)

text \<open>
  Every text has a main topic and four key terms, so the first two questions are always
  asked, the padding loop never adds one, and the final \<open>slice\<close> cuts nothing.
\<close>

lemma generateSmartQuiz_closed_form:
  "generateSmartQuiz rt text =
     topicQuestion (extractMainTopic rt text)
     # conceptQuestion (hd (extractKeyTerms text))
     # (if containsProcess text then [processQuestion] else [])"
proof -
  obtain keyTerm rest where split_terms: "extractKeyTerms text = keyTerm # rest"
    using extractKeyTerms_length [of "text"] by (cases "extractKeyTerms text") auto
  show ?thesis
    by (simp add: generateSmartQuiz_def buildQuiz_def Let_def split_terms extractMainTopic_not_empty
        padQuestions_replicate)
qed

text \<open>
  Claim C2. Every question that quiz generation produces has exactly 4 options and the
  correct index 0, and this holds for each of the four kinds of question it can build (the
  topic question, the key-term question, the process question and the generic padding
  question, whose first option is the intended answer), whatever the main topic, the key
  terms and the process flag are.
\<close>

theorem quiz_four_options_correct_first:
  "(\<forall>q \<in> set (generateSmartQuiz rt text). length (options q) = 4 \<and> correct q = 0)
   \<and> (\<forall>q \<in> set (buildQuiz mainTopic keyTerms process). length (options q) = 4 \<and> correct q = 0)
   \<and> options (topicQuestion mainTopic) ! 0 = Str mainTopic
   \<and> options (conceptQuestion keyTerm) ! 0 = Str keyTerm
   \<and> options processQuestion ! 0 = Str ''A process or method''
   \<and> options genericQuestion ! 0 = Str ''Study material for learning''"
proof -
  have "\<forall>q \<in> set (generateSmartQuiz rt text). length (options q) = 4 \<and> correct q = 0"
    unfolding generateSmartQuiz_def using buildQuiz_shape by blast
  moreover have "\<forall>q \<in> set (buildQuiz mainTopic keyTerms process).
      length (options q) = 4 \<and> correct q = 0"
    using buildQuiz_shape by blast
  ultimately show ?thesis
    by (simp add: topicQuestion_def conceptQuestion_def processQuestion_def genericQuestion_def)
qed

text \<open>
  A text about a process gets three questions, each with four options and answer 0; with
  no topic and no key terms the quiz is the generic question twice, of the same shape.
\<close>

theorem quiz_four_options_correct_first_witness:
  "length (generateSmartQuiz
       \<lparr>mathRandom = (\<lambda>i. 0), currentTime = 0, arraySort = js_sort, coerceLess = (\<lambda>v n. None)\<rparr>
       ''The water cycle is a process. First the water evaporates.'') = 3
   \<and> list_all (\<lambda>q. length (options q) = 4 \<and> correct q = 0)
        (generateSmartQuiz
           \<lparr>mathRandom = (\<lambda>i. 0), currentTime = 0, arraySort = js_sort, coerceLess = (\<lambda>v n. None)\<rparr>
           ''The water cycle is a process. First the water evaporates.'')
   \<and> buildQuiz [] [] False = [genericQuestion, genericQuestion]
   \<and> list_all (\<lambda>q. length (options q) = 4 \<and> correct q = 0) (buildQuiz [] [] False)"
proof -
  have three: "length (generateSmartQuiz
       \<lparr>mathRandom = (\<lambda>i. 0), currentTime = 0, arraySort = js_sort, coerceLess = (\<lambda>v n. None)\<rparr>
       ''The water cycle is a process. First the water evaporates.'') = 3"
    by code_simp
  have padded: "buildQuiz [] [] False = [genericQuestion, genericQuestion]"
    by code_simp
  show ?thesis
    using three padded
      quiz_four_options_correct_first
        [of "\<lparr>mathRandom = (\<lambda>i. 0), currentTime = 0, arraySort = js_sort, coerceLess = (\<lambda>v n. None)\<rparr>"
           "''The water cycle is a process. First the water evaporates.''" "[]" "[]" False]
    by (simp add: list_all_iff)
qed



lemma pushStep_length:
  "length flashcards \<le> length (pushStep step flashcards)
   \<and> (length flashcards \<le> 6 \<longrightarrow> length (pushStep step flashcards) \<le> 6)"
  by (cases step) (simp add: pushStep_def)

lemma fold_pushStep_length:
  "length flashcards \<le> length (fold pushStep steps flashcards)"
proof (induction steps arbitrary: flashcards)
  case Nil
  then show ?case by simp
next
  case (Cons step steps)
  have "length flashcards \<le> length (pushStep step flashcards)"
    using pushStep_length by blast
  also have "\<dots> \<le> length (fold pushStep steps (pushStep step flashcards))"
    by (rule Cons.IH)
  finally show ?case by simp
qed

lemma padFlashcards_full:
  "4 \<le> length flashcards \<Longrightarrow> padFlashcards rt text flashcards = flashcards"
  by (subst padFlashcards.simps) simp

lemma generateSmartFlashcards_length:
  "4 \<le> length (generateSmartFlashcards rt text) \<and> length (generateSmartFlashcards rt text) \<le> 6"
proof -
  define sentences where "sentences = filter (\<lambda>s. 10 < length (trim s)) (splitSentences text)"
  define termCards where "termCards = map (termCard rt text sentences) (extractKeyTerms text)"
  define withSteps where "withSteps =
     (if containsProcess text
      then fold pushStep (withIndex (extractProcessSteps text)) termCards else termCards)"
  have "length termCards = 4"
    by (simp add: termCards_def extractKeyTerms_length)
  then have "4 \<le> length withSteps"
    using fold_pushStep_length [of termCards "withIndex (extractProcessSteps text)"]
    by (simp add: withSteps_def)
  then have "padFlashcards rt text withSteps = withSteps"
    by (rule padFlashcards_full)
  moreover have "generateSmartFlashcards rt text = take 6 (padFlashcards rt text withSteps)"
    by (simp add: generateSmartFlashcards_def Let_def withSteps_def termCards_def
        sentences_def)
  ultimately show ?thesis
    using \<open>4 \<le> length withSteps\<close> by simp
qed

lemma extractSmartKeyPoints_length:
  "length (extractSmartKeyPoints text) = min 5 (length (keyPointSentences text))"
  by (simp add: extractSmartKeyPoints_def withIndex_def topSentences_def length_js_sort
      scoredSentences_def min.commute)

lemma generateSmartQuiz_length:
  "2 \<le> length (generateSmartQuiz rt text) \<and> length (generateSmartQuiz rt text) \<le> 3"
  by (simp add: generateSmartQuiz_closed_form)

text \<open>
  Claim C1. For a text of at least 30 characters (in fact for every text) the generators
  return: a summary that is not the empty string; 2 or 3 quiz questions, each with
  exactly 4 options and a correct index between 0 and 3; between 4 and 6 flashcards; at
  most 5 key points.
\<close>

theorem artifacts_well_formed:
  "30 \<le> length text \<Longrightarrow>
     generateSmartSummary text \<noteq> []
     \<and> 2 \<le> length (generateSmartQuiz rt text) \<and> length (generateSmartQuiz rt text) \<le> 3
     \<and> (\<forall>q \<in> set (generateSmartQuiz rt text). length (options q) = 4 \<and> correct q \<le> 3)
     \<and> 4 \<le> length (generateSmartFlashcards rt text)
     \<and> length (generateSmartFlashcards rt text) \<le> 6
     \<and> length (extractSmartKeyPoints text) \<le> 5"
proof -
  have "\<forall>q \<in> set (generateSmartQuiz rt text). length (options q) = 4 \<and> correct q \<le> 3"
    unfolding generateSmartQuiz_def using buildQuiz_shape by fastforce
  moreover have "length (extractSmartKeyPoints text) \<le> 5"
    by (simp add: extractSmartKeyPoints_length)
  ultimately show ?thesis
    using generateSmartSummary_not_empty [of "text"] generateSmartQuiz_length [of rt "text"]
      generateSmartFlashcards_length [of rt "text"]
    by blast
qed

text \<open>
  A text of 75 characters: a summary, 2 questions, 4 flashcards and, of its 3 sentences
  longer than 15 characters, 3 key points.
\<close>

theorem artifacts_well_formed_witness:
  "30 \<le> length ''Machine learning is important. It uses algorithms. Neural networks are key.''
   \<and> generateSmartSummary ''Machine learning is important. It uses algorithms. Neural networks are key.'' \<noteq> []
   \<and> length (generateSmartQuiz
        \<lparr>mathRandom = (\<lambda>i. 0), currentTime = 0, arraySort = js_sort, coerceLess = (\<lambda>v n. None)\<rparr>
        ''Machine learning is important. It uses algorithms. Neural networks are key.'') = 2
   \<and> list_all (\<lambda>q. length (options q) = 4 \<and> correct q \<le> 3)
        (generateSmartQuiz
           \<lparr>mathRandom = (\<lambda>i. 0), currentTime = 0, arraySort = js_sort, coerceLess = (\<lambda>v n. None)\<rparr>
           ''Machine learning is important. It uses algorithms. Neural networks are key.'')
   \<and> length (generateSmartFlashcards
        \<lparr>mathRandom = (\<lambda>i. 0), currentTime = 0, arraySort = js_sort, coerceLess = (\<lambda>v n. None)\<rparr>
        ''Machine learning is important. It uses algorithms. Neural networks are key.'') = 4
   \<and> length (extractSmartKeyPoints ''Machine learning is important. It uses algorithms. Neural networks are key.'') \<le> 5"
proof -
  have long: "30 \<le> length ''Machine learning is important. It uses algorithms. Neural networks are key.''"
    by simp
  have quiz: "length (generateSmartQuiz
        \<lparr>mathRandom = (\<lambda>i. 0), currentTime = 0, arraySort = js_sort, coerceLess = (\<lambda>v n. None)\<rparr>
        ''Machine learning is important. It uses algorithms. Neural networks are key.'') = 2"
    by code_simp
  have cards: "length (generateSmartFlashcards
        \<lparr>mathRandom = (\<lambda>i. 0), currentTime = 0, arraySort = js_sort, coerceLess = (\<lambda>v n. None)\<rparr>
        ''Machine learning is important. It uses algorithms. Neural networks are key.'') = 4"
    by code_simp
  show ?thesis
    using long quiz cards
      artifacts_well_formed
        [of "''Machine learning is important. It uses algorithms. Neural networks are key.''"
           "\<lparr>mathRandom = (\<lambda>i. 0), currentTime = 0, arraySort = js_sort, coerceLess = (\<lambda>v n. None)\<rparr>"]
    by (simp add: list_all_iff)
qed

end
